theory Spec2Isabelle
  imports Main
begin

section \<open>Provider clients: the retry interceptor\<close>

text \<open>
  The three provider clients (\<^verbatim>\<open>uber.service.ts\<close>, \<^verbatim>\<open>doordash.service.ts\<close>,
  \<^verbatim>\<open>instacart.service.ts\<close>) install the same axios response interceptor in
  \<^verbatim>\<open>setupInterceptors\<close>; the three copies differ in the log prefix only.

  An axios error carries \<^verbatim>\<open>error.code\<close> and, when the server answered,
  \<^verbatim>\<open>error.response.status\<close>. Both may be undefined.
\<close>

record AxiosError =
  code :: "string option"
  response_status :: "nat option"

text \<open>One transmission of a request either resolves with a response or rejects.\<close>

datatype 'r outcome = Resolved 'r | Rejected AxiosError

text \<open>
  The condition of the interceptor that follows \<^verbatim>\<open>!originalRequest._retry &&\<close>:
  \<^verbatim>\<open>error.code === 'ECONNABORTED' || error.code === 'ETIMEDOUT' ||
  (error.response?.status && error.response.status >= 500)\<close>.
  A status of 0 is falsy in JavaScript.
\<close>

definition retryable :: "AxiosError \<Rightarrow> bool" where
  "retryable e \<longleftrightarrow>
     code e = Some ''ECONNABORTED'' \<or> code e = Some ''ETIMEDOUT'' \<or>
     (case response_status e of None \<Rightarrow> False | Some s \<Rightarrow> s \<noteq> 0 \<and> s \<ge> 500)"

text \<open>\<^verbatim>\<open>!originalRequest._retry\<close>: the field is undefined or a number.\<close>

definition not_retry :: "nat option \<Rightarrow> bool" where
  "not_retry r \<longleftrightarrow> (case r of None \<Rightarrow> True | Some n \<Rightarrow> n = 0)"

text \<open>\<^verbatim>\<open>(originalRequest._retry || 0) + 1\<close>\<close>

definition next_retry :: "nat option \<Rightarrow> nat" where
  "next_retry r = (case r of None \<Rightarrow> 0 | Some n \<Rightarrow> n) + 1"

text \<open>\<^verbatim>\<open>Math.min(1000 * Math.pow(2, originalRequest._retry - 1), 10000)\<close>, in milliseconds.\<close>

definition backoff_delay :: "nat \<Rightarrow> nat" where
  "backoff_delay r = min (1000 * 2 ^ (r - 1)) 10000"

text \<open>
  \<open>axiosInstance w r k\<close> issues the request whose configuration carries \<^verbatim>\<open>_retry\<close> = \<open>r\<close>,
  when \<open>k\<close> transmissions have been made before; \<open>w n\<close> is what the provider answers to
  transmission number \<open>n\<close> (counted from 0). The result is the number of transmissions made
  in all, the delays slept, and what the caller's promise settles with.

  A retry calls \<^verbatim>\<open>this.axiosInstance(originalRequest)\<close> with the configuration object on
  which \<^verbatim>\<open>_retry\<close> was just written; axios copies the fields of a request configuration
  it does not know into the configuration of the new request, so the interceptor sees
  the counter again when the retried request fails.
\<close>

function axiosInstance ::
  "(nat \<Rightarrow> 'r outcome) \<Rightarrow> nat option \<Rightarrow> nat \<Rightarrow> nat \<times> nat list \<times> 'r outcome" where
  "axiosInstance w r k =
     (case w k of
        Resolved resp \<Rightarrow> (Suc k, [], Resolved resp)
      | Rejected e \<Rightarrow>
          if not_retry r \<and> retryable e then
            if next_retry r \<le> 3 then
              (case axiosInstance w (Some (next_retry r)) (Suc k) of
                 (n, ds, out) \<Rightarrow> (n, backoff_delay (next_retry r) # ds, out))
            else (Suc k, [], Rejected e)
          else (Suc k, [], Rejected e))"
  by pat_completeness auto
termination
  by (relation "measure (\<lambda>(w, r, k). if not_retry r then 1 else 0)")
     (auto simp: not_retry_def next_retry_def split: option.splits)

declare axiosInstance.simps [simp del]

definition attempts :: "nat \<times> nat list \<times> 'r outcome \<Rightarrow> nat" where
  "attempts res = fst res"

definition settled :: "nat \<times> nat list \<times> 'r outcome \<Rightarrow> 'r outcome" where
  "settled res = snd (snd res)"

subsection \<open>Ride provider: webhook signature\<close>

text \<open>\<^verbatim>\<open>UberService.verifyWebhookSignature\<close>: the body is \<^verbatim>\<open>return true\<close>.\<close>

definition uber_verifyWebhookSignature :: "string \<Rightarrow> string \<Rightarrow> bool" where
  "uber_verifyWebhookSignature payload signature = True"

section \<open>Values of the wire format\<close>

text \<open>
  Request bodies and the \<^verbatim>\<open>metadata\<close> fields are untyped JSON
  (\<^verbatim>\<open>Record<string, any>\<close>, \<^verbatim>\<open>request.body as any\<close>).
\<close>

datatype jsval =
    JUndefined | JNull | JBool bool | JNum int | JStr string
  | JObject "(string \<times> jsval) list" | JArray "jsval list"

text \<open>JavaScript truthiness, as tested by \<^verbatim>\<open>!x\<close> and \<^verbatim>\<open>x && y\<close>.\<close>

fun truthy :: "jsval \<Rightarrow> bool" where
  "truthy JUndefined = False"
| "truthy JNull = False"
| "truthy (JBool b) = b"
| "truthy (JNum n) = (n \<noteq> 0)"
| "truthy (JStr s) = (s \<noteq> [])"
| "truthy (JObject kv) = True"
| "truthy (JArray vs) = True"

type_synonym metadata = "string \<rightharpoonup> jsval"

text \<open>\<^verbatim>\<open>m?.k\<close> on an optional record: undefined when the record or the key is missing.\<close>

definition opt_field :: "metadata option \<Rightarrow> string \<Rightarrow> jsval" where
  "opt_field m k = (case m of None \<Rightarrow> JUndefined
                | Some kv \<Rightarrow> (case kv k of None \<Rightarrow> JUndefined | Some v \<Rightarrow> v))"

text \<open>
  \<^verbatim>\<open>v.k\<close> on an arbitrary value: a TypeError (\<open>None\<close>) on undefined and null, the
  field of an object, undefined on anything else.
\<close>

fun get_prop :: "jsval \<Rightarrow> string \<Rightarrow> jsval option" where
  "get_prop JUndefined k = None"
| "get_prop JNull k = None"
| "get_prop (JObject kv) k = Some (case map_of kv k of None \<Rightarrow> JUndefined | Some v \<Rightarrow> v)"
| "get_prop v k = Some JUndefined"

text \<open>Every failure of the service is a JavaScript \<^verbatim>\<open>Error\<close> with a message.\<close>

datatype error = Error string

fun message :: "error \<Rightarrow> string" where
  "message (Error m) = m"

section \<open>Data model (\<^verbatim>\<open>types/index.ts\<close>)\<close>

text \<open>
  Amounts and quantities are JavaScript numbers. They are kept abstract: \<open>'n\<close> is any
  type with a zero, an addition and a multiplication. No law of arithmetic is assumed of
  them, so that what is proved holds of IEEE doubles with their rounding as it does of
  integers. The number that a numeric literal \<open>k\<close> of the source denotes is \<open>lit k\<close>, for
  a conversion \<open>lit\<close> that the functions take as an argument. A \<^verbatim>\<open>Date\<close> is its time
  value in milliseconds. Field names that several interfaces share, or that HOL already uses,
  carry a suffix: \<open>_c\<close> for the catalog item, \<open>_d\<close> for the request, \<open>_o\<close> for the order.
\<close>

datatype UpsellCategory =
    FOOD_DELIVERY | GROCERY_DELIVERY | TRANSPORTATION | EARLY_CHECKIN | LATE_CHECKOUT
  | EXTRA_CLEANING | LOCAL_ACTIVITIES | RESTAURANT_RESERVATION

datatype UpsellOrderStatus =
    PENDING | CONFIRMED | IN_PROGRESS | COMPLETED | CANCELLED | REFUNDED

record 'n UpsellItem =
  id_c :: string
  category :: UpsellCategory
  name :: string
  description :: string
  price_c :: 'n
  currency_c :: string
  imageUrl :: "string option"
  available :: bool
  metadata_c :: "metadata option"

record 'n OrderItem =
  upsellId :: string
  quantity :: 'n
  price :: 'n
  metadata :: "metadata option"

record 'n UpsellOrder =
  id_o :: string
  reservationId :: string
  propertyId :: string
  guestId :: string
  items :: "'n OrderItem list"
  totalAmount :: 'n
  currency :: string
  status :: UpsellOrderStatus
  paymentIntentId :: "string option"
  externalOrderId :: "string option"
  externalProvider :: "string option"
  scheduledFor :: "int option"
  completedAt :: "int option"
  cancelledAt :: "int option"
  refundedAt :: "int option"
  createdAt :: int
  updatedAt :: int

record 'n DtoItem =
  upsellId_d :: string
  quantity_d :: 'n
  metadata_d :: "metadata option"

record 'n CreateUpsellOrderDto =
  reservationId_d :: string
  items_d :: "'n DtoItem list"
  scheduledFor_d :: "int option"

section \<open>The upsell service (\<^verbatim>\<open>services/upsell.service.ts\<close>)\<close>

text \<open>
  The service keeps its state in Redis under two families of keys,
  \<^verbatim>\<open>upsell:catalog:<propertyId>\<close> and \<^verbatim>\<open>upsell:order:<id>\<close>. The model has one map
  for each; an entry that has expired is an entry that is absent, and no entry expires
  or is lost in the course of one call (the entries live for 1800 seconds).
\<close>

record 'n redis =
  catalog_cache :: "string \<rightharpoonup> 'n UpsellItem list"
  order_cache :: "string \<rightharpoonup> 'n UpsellOrder"

text \<open>
  What the service reads from outside: the results of \<^verbatim>\<open>uuidv4()\<close> and
  \<^verbatim>\<open>new Date()\<close>, numbered, and the answers of the three provider clients, by the
  position of the order line that causes the call. A provider call either throws
  (\<open>Inl\<close> the message) or returns.
\<close>

record world =
  uuidv4 :: "nat \<Rightarrow> string"
  clock :: "nat \<Rightarrow> int"
  uber_requestRide :: "nat \<Rightarrow> metadata option \<Rightarrow> string + string"
  doordash_getDeliveryQuote :: "nat \<Rightarrow> metadata option \<Rightarrow> string + jsval"
  doordash_createDelivery :: "nat \<Rightarrow> jsval \<Rightarrow> metadata option \<Rightarrow> string + string"
  instacart_getOrderEstimate :: "nat \<Rightarrow> metadata option \<Rightarrow> string + jsval"
  instacart_createOrder :: "nat \<Rightarrow> metadata option \<Rightarrow> string + string"

definition cacheCatalog :: "'n redis \<Rightarrow> string \<Rightarrow> 'n UpsellItem list \<Rightarrow> 'n redis" where
  "cacheCatalog r pid catalog = r\<lparr>catalog_cache := (catalog_cache r)(pid \<mapsto> catalog)\<rparr>"

definition getCachedCatalog :: "'n redis \<Rightarrow> string \<Rightarrow> 'n UpsellItem list option" where
  "getCachedCatalog r pid = catalog_cache r pid"

definition cacheOrder :: "'n redis \<Rightarrow> 'n UpsellOrder \<Rightarrow> 'n redis" where
  "cacheOrder r order = r\<lparr>order_cache := (order_cache r)(id_o order \<mapsto> order)\<rparr>"

definition getCachedOrder :: "'n redis \<Rightarrow> string \<Rightarrow> 'n UpsellOrder option" where
  "getCachedOrder r orderId = order_cache r orderId"

definition getOrderById :: "'n redis \<Rightarrow> string \<Rightarrow> 'n UpsellOrder option" where
  "getOrderById r orderId = getCachedOrder r orderId"

definition mk_item ::
  "string \<Rightarrow> UpsellCategory \<Rightarrow> string \<Rightarrow> string \<Rightarrow> 'n \<Rightarrow> metadata option \<Rightarrow> 'n UpsellItem" where
  "mk_item i c n d p m =
     \<lparr>id_c = i, category = c, name = n, description = d, price_c = p, currency_c = ''USD'',
      imageUrl = None, available = True, metadata_c = m\<rparr>"

text \<open>The catalog that \<^verbatim>\<open>getUpsellCatalog\<close> builds on a cache miss.\<close>

definition build_catalog :: "(nat \<Rightarrow> 'n) \<Rightarrow> (nat \<Rightarrow> string) \<Rightarrow> ('n::zero) UpsellItem list" where
  "build_catalog lit u =
     [mk_item (u 1) TRANSPORTATION ''Uber Ride''
        ''Request an Uber ride to anywhere in the city'' 0
        (Some [''provider'' \<mapsto> JStr ''uber'', ''dynamic_pricing'' \<mapsto> JBool True]),
      mk_item (u 2) FOOD_DELIVERY ''DoorDash Food Delivery''
        ''Order food from local restaurants'' 0
        (Some [''provider'' \<mapsto> JStr ''doordash'', ''placeholder'' \<mapsto> JBool True]),
      mk_item (u 3) GROCERY_DELIVERY ''Instacart Grocery Delivery''
        ''Fresh groceries delivered to your door'' 0
        (Some [''provider'' \<mapsto> JStr ''instacart'', ''placeholder'' \<mapsto> JBool True]),
      mk_item (u 4) EARLY_CHECKIN ''Early Check-in (11 AM)''
        ''Check in 3 hours early, subject to availability'' (lit 50) None,
      mk_item (u 5) LATE_CHECKOUT ''Late Checkout (2 PM)''
        ''Check out 3 hours late, subject to availability'' (lit 50) None,
      mk_item (u 6) EXTRA_CLEANING ''Mid-Stay Cleaning''
        ''Full cleaning service during your stay'' (lit 75) None,
      mk_item (u 7) LOCAL_ACTIVITIES ''City Tour Package''
        ''3-hour guided city tour with local expert'' (lit 120) None,
      mk_item (u 8) LOCAL_ACTIVITIES ''Wine Tasting Tour''
        ''Visit 3 local wineries with transportation included'' (lit 150) None,
      mk_item (u 9) RESTAURANT_RESERVATION ''Premium Restaurant Reservation''
        ''Reserved table at top-rated local restaurant'' (lit 25) None]"

definition getUpsellCatalog ::
  "(nat \<Rightarrow> 'n) \<Rightarrow> world \<Rightarrow> ('n::zero) redis \<Rightarrow> string \<Rightarrow> 'n UpsellItem list \<times> 'n redis" where
  "getUpsellCatalog lit w r pid =
     (case getCachedCatalog r pid of
        Some cached \<Rightarrow> (cached, r)
      | None \<Rightarrow>
          (let catalog = build_catalog lit (uuidv4 w) in (catalog, cacheCatalog r pid catalog)))"

text \<open>
  \<^verbatim>\<open>updateOrderStatus\<close>. It reads the clock once for \<^verbatim>\<open>updatedAt\<close> (\<open>t\<close>) and once
  more for the terminal timestamp (\<open>t'\<close>).
\<close>

definition updateOrderStatus ::
  "int \<Rightarrow> int \<Rightarrow> 'n redis \<Rightarrow> string \<Rightarrow> UpsellOrderStatus \<Rightarrow> string option \<Rightarrow> string option
   \<Rightarrow> (error + 'n UpsellOrder) \<times> 'n redis" where
  "updateOrderStatus t t' r orderId st ext prov =
     (case getOrderById r orderId of
        None \<Rightarrow> (Inl (Error ''Order not found''), r)
      | Some order \<Rightarrow>
          (let updated = order\<lparr>status := st, externalOrderId := ext, externalProvider := prov,
                               updatedAt := t\<rparr>;
               updated = (if st = COMPLETED then updated\<lparr>completedAt := Some t'\<rparr>
                          else if st = CANCELLED then updated\<lparr>cancelledAt := Some t'\<rparr>
                          else if st = REFUNDED then updated\<lparr>refundedAt := Some t'\<rparr>
                          else updated)
           in (Inr updated, cacheOrder r updated)))"

text \<open>
  The closure that \<^verbatim>\<open>createUpsellOrder\<close> maps over \<^verbatim>\<open>dto.items\<close>. It validates one
  line after the other, adds to \<^verbatim>\<open>totalAmount\<close> (the accumulator \<open>tot\<close>) and throws at
  the first line that fails.
\<close>

fun map_items ::
  "('n::{zero,plus,times}) UpsellItem list \<Rightarrow> 'n \<Rightarrow> 'n DtoItem list
   \<Rightarrow> error + ('n \<times> 'n OrderItem list)" where
  "map_items catalog tot [] = Inr (tot, [])"
| "map_items catalog tot (item # rest) =
     (case find (\<lambda>c. id_c c = upsellId_d item) catalog of
        None \<Rightarrow> Inl (Error (''Upsell item not found: '' @ upsellId_d item))
      | Some catalogItem \<Rightarrow>
          if \<not> available catalogItem
          then Inl (Error (''Upsell item not available: '' @ name catalogItem))
          else
            (case map_items catalog (tot + price_c catalogItem * quantity_d item) rest of
               Inl e \<Rightarrow> Inl e
             | Inr (tot', orderItems) \<Rightarrow>
                 Inr (tot',
                      \<lparr>upsellId = upsellId_d item, quantity = quantity_d item,
                       price = price_c catalogItem, metadata = metadata_d item\<rparr> # orderItems)))"

text \<open>
  The three dispatchers. Line \<open>i\<close> of the order reads the clock at \<open>2 * i + 2\<close> when it
  confirms the order and at \<open>2 * i + 3\<close> in the handler of a failed dispatch.
\<close>

definition processUberRideRequest ::
  "world \<Rightarrow> nat \<Rightarrow> 'n redis \<Rightarrow> 'n UpsellOrder \<Rightarrow> 'n OrderItem \<Rightarrow> (error + unit) \<times> 'n redis" where
  "processUberRideRequest w i r order item =
     (let rideMetadata = metadata item in
      if \<not> truthy (opt_field rideMetadata ''userToken'') \<or>
         \<not> truthy (opt_field rideMetadata ''productId'')
      then (Inl (Error ''Missing required Uber metadata: userToken and productId''), r)
      else
        (case uber_requestRide w i rideMetadata of
           Inl m \<Rightarrow> (Inl (Error (''Uber ride request failed: '' @ m)), r)
         | Inr request_id \<Rightarrow>
             (case updateOrderStatus (clock w (2 * i + 2)) (clock w (2 * i + 2)) r (id_o order)
                     CONFIRMED (Some request_id) (Some ''uber'') of
                (Inl e, r') \<Rightarrow> (Inl (Error (''Uber ride request failed: '' @ message e)), r')
              | (Inr u, r') \<Rightarrow> (Inr (), r'))))"

definition processDoorDashDelivery ::
  "world \<Rightarrow> nat \<Rightarrow> 'n redis \<Rightarrow> 'n UpsellOrder \<Rightarrow> 'n OrderItem \<Rightarrow> (error + unit) \<times> 'n redis" where
  "processDoorDashDelivery w i r order item =
     (let deliveryMetadata = metadata item in
      if \<not> truthy (opt_field deliveryMetadata ''pickupAddress'') \<or>
         \<not> truthy (opt_field deliveryMetadata ''deliveryAddress'') \<or>
         \<not> truthy (opt_field deliveryMetadata ''items'')
      then (Inl (Error ''Missing required DoorDash metadata: addresses and items''), r)
      else
        (case doordash_getDeliveryQuote w i deliveryMetadata of
           Inl m \<Rightarrow> (Inl (Error (''DoorDash delivery creation failed: '' @ m)), r)
         | Inr quote \<Rightarrow>
             (case doordash_createDelivery w i quote deliveryMetadata of
                Inl m \<Rightarrow> (Inl (Error (''DoorDash delivery creation failed: '' @ m)), r)
              | Inr external_delivery_id \<Rightarrow>
                  (case updateOrderStatus (clock w (2 * i + 2)) (clock w (2 * i + 2)) r
                          (id_o order) CONFIRMED (Some external_delivery_id) (Some ''doordash'') of
                     (Inl e, r') \<Rightarrow>
                       (Inl (Error (''DoorDash delivery creation failed: '' @ message e)), r')
                   | (Inr u, r') \<Rightarrow> (Inr (), r')))))"

definition processInstacartOrder ::
  "world \<Rightarrow> nat \<Rightarrow> 'n redis \<Rightarrow> 'n UpsellOrder \<Rightarrow> 'n OrderItem \<Rightarrow> (error + unit) \<times> 'n redis" where
  "processInstacartOrder w i r order item =
     (let orderMetadata = metadata item in
      if \<not> truthy (opt_field orderMetadata ''storeId'') \<or>
         \<not> truthy (opt_field orderMetadata ''items'') \<or>
         \<not> truthy (opt_field orderMetadata ''deliveryAddress'') \<or>
         \<not> truthy (opt_field orderMetadata ''contactPhone'') \<or>
         \<not> truthy (opt_field orderMetadata ''contactEmail'')
      then (Inl (Error
              ''Missing required Instacart metadata: storeId, items, address, and contact info''), r)
      else
        (case instacart_getOrderEstimate w i orderMetadata of
           Inl m \<Rightarrow> (Inl (Error (''Instacart order creation failed: '' @ m)), r)
         | Inr estimate \<Rightarrow>
             (case instacart_createOrder w i orderMetadata of
                Inl m \<Rightarrow> (Inl (Error (''Instacart order creation failed: '' @ m)), r)
              | Inr order_id \<Rightarrow>
                  (case updateOrderStatus (clock w (2 * i + 2)) (clock w (2 * i + 2)) r
                          (id_o order) CONFIRMED (Some order_id) (Some ''instacart'') of
                     (Inl e, r') \<Rightarrow>
                       (Inl (Error (''Instacart order creation failed: '' @ message e)), r')
                   | (Inr u, r') \<Rightarrow> (Inr (), r')))))"

text \<open>The \<^verbatim>\<open>switch (provider)\<close> of \<^verbatim>\<open>processExternalIntegrations\<close>.\<close>

definition dispatch ::
  "world \<Rightarrow> nat \<Rightarrow> 'n redis \<Rightarrow> 'n UpsellOrder \<Rightarrow> 'n OrderItem \<Rightarrow> string
   \<Rightarrow> (error + unit) \<times> 'n redis" where
  "dispatch w i r order item provider =
     (if provider = ''uber'' then processUberRideRequest w i r order item
      else if provider = ''doordash'' then processDoorDashDelivery w i r order item
      else if provider = ''instacart'' then processInstacartOrder w i r order item
      else (Inr (), r))"

text \<open>
  One turn of the loop of \<^verbatim>\<open>processExternalIntegrations\<close>: the \<^verbatim>\<open>try\<close> around the
  switch, and the \<^verbatim>\<open>catch\<close> that calls \<^verbatim>\<open>updateOrderStatus(order.id, PENDING, undefined,
  provider)\<close>. That call stands outside any \<^verbatim>\<open>try\<close>: when it throws, the loop ends with
  its error. A provider value that is truthy but not a string takes the default branch
  of the switch.
\<close>

definition processItem ::
  "world \<Rightarrow> nat \<Rightarrow> 'n redis \<Rightarrow> 'n UpsellOrder \<Rightarrow> 'n UpsellItem list \<Rightarrow> 'n OrderItem
   \<Rightarrow> (error + unit) \<times> 'n redis" where
  "processItem w i r order catalog item =
     (let catalogItem = find (\<lambda>c. id_c c = upsellId item) catalog;
          provider = opt_field (case catalogItem of None \<Rightarrow> None | Some c \<Rightarrow> metadata_c c)
                       ''provider''
      in if \<not> truthy provider then (Inr (), r)
         else
           (case provider of
              JStr p \<Rightarrow>
                (case dispatch w i r order item p of
                   (Inr u, r') \<Rightarrow> (Inr (), r')
                 | (Inl e, r') \<Rightarrow>
                     (case updateOrderStatus (clock w (2 * i + 3)) (clock w (2 * i + 3)) r'
                             (id_o order) PENDING None (Some p) of
                        (Inl e', r'') \<Rightarrow> (Inl e', r'')
                      | (Inr u, r'') \<Rightarrow> (Inr (), r'')))
            | _ \<Rightarrow> (Inr (), r)))"

fun processItems ::
  "world \<Rightarrow> nat \<Rightarrow> 'n redis \<Rightarrow> 'n UpsellOrder \<Rightarrow> 'n UpsellItem list \<Rightarrow> 'n OrderItem list
   \<Rightarrow> (error + unit) \<times> 'n redis" where
  "processItems w i r order catalog [] = (Inr (), r)"
| "processItems w i r order catalog (item # rest) =
     (case processItem w i r order catalog item of
        (Inl e, r') \<Rightarrow> (Inl e, r')
      | (Inr u, r') \<Rightarrow> processItems w (Suc i) r' order catalog rest)"

definition processExternalIntegrations ::
  "world \<Rightarrow> 'n redis \<Rightarrow> 'n UpsellOrder \<Rightarrow> 'n UpsellItem list \<Rightarrow> (error + unit) \<times> 'n redis" where
  "processExternalIntegrations w r order catalog = processItems w 0 r order catalog (items order)"

text \<open>
  \<^verbatim>\<open>createUpsellOrder\<close>. The order takes \<open>uuidv4 w 0\<close> as its id and the clock at 0 and 1
  for \<^verbatim>\<open>createdAt\<close> and \<^verbatim>\<open>updatedAt\<close>. What it returns is the \<^verbatim>\<open>order\<close> object it
  built: \<^verbatim>\<open>updateOrderStatus\<close> writes copies to the cache and never touches it.
\<close>

definition createUpsellOrder ::
  "(nat \<Rightarrow> 'n) \<Rightarrow> world \<Rightarrow> ('n::{zero,plus,times}) redis \<Rightarrow> 'n CreateUpsellOrderDto
   \<Rightarrow> string \<Rightarrow> string \<Rightarrow> (error + 'n UpsellOrder) \<times> 'n redis" where
  "createUpsellOrder lit w r dto gid pid =
     (case getUpsellCatalog lit w r pid of
        (catalog, r0) \<Rightarrow>
          (case map_items catalog 0 (items_d dto) of
             Inl e \<Rightarrow> (Inl e, r0)
           | Inr (tot, orderItems) \<Rightarrow>
               (let order =
                      \<lparr>id_o = uuidv4 w 0, reservationId = reservationId_d dto, propertyId = pid,
                       guestId = gid, items = orderItems, totalAmount = tot,
                       currency = ''USD'', status = PENDING, paymentIntentId = None,
                       externalOrderId = None, externalProvider = None,
                       scheduledFor = scheduledFor_d dto, completedAt = None,
                       cancelledAt = None, refundedAt = None,
                       createdAt = clock w 0, updatedAt = clock w 1\<rparr>;
                    r1 = cacheOrder r0 order
                in (case processExternalIntegrations w r1 order catalog of
                      (Inl e, r2) \<Rightarrow> (Inl e, r2)
                    | (Inr u, r2) \<Rightarrow> (Inr order, r2)))))"

section \<open>Webhook routes (\<^verbatim>\<open>routes/upsell.routes.ts\<close>)\<close>

text \<open>
  What the handlers take from the runtime: HMAC-SHA256 with hexadecimal output
  (\<^verbatim>\<open>crypto.createHmac('sha256', key).update(data).digest('hex')\<close>), \<^verbatim>\<open>JSON.stringify\<close>
  (undefined for an undefined body), the two keys of the configuration and the time at
  which the event is processed. A \<open>string\<close> stands for the bytes that \<^verbatim>\<open>Buffer.from\<close>
  makes of it.
\<close>

record runtime =
  hmac_sha256_hex :: "string \<Rightarrow> string \<Rightarrow> string"
  JSON_stringify :: "jsval \<Rightarrow> string option"
  signingSecret :: string
  apiKey :: string
  processedAt :: int

record request =
  body :: jsval
  headers :: "string \<rightharpoonup> string"

datatype reply = Reply nat "(string \<times> jsval) list"

fun reply_code :: "reply \<Rightarrow> nat" where
  "reply_code (Reply c b) = c"

text \<open>\<^verbatim>\<open>crypto.timingSafeEqual\<close> throws (\<open>None\<close>) when the lengths differ.\<close>

definition timingSafeEqual :: "string \<Rightarrow> string \<Rightarrow> bool option" where
  "timingSafeEqual a b = (if length a \<noteq> length b then None else Some (a = b))"

text \<open>
  \<^verbatim>\<open>verifyWebhookSignature\<close> of the food and of the grocery client: the same body, keyed
  with \<^verbatim>\<open>signingSecret\<close> and with \<^verbatim>\<open>apiKey\<close>. Whatever throws inside is caught and gives
  false; an undefined payload makes \<^verbatim>\<open>update\<close> throw.
\<close>

definition hmac_verify :: "runtime \<Rightarrow> string \<Rightarrow> string option \<Rightarrow> string \<Rightarrow> bool" where
  "hmac_verify rt key payload signature =
     (case payload of
        None \<Rightarrow> False
      | Some p \<Rightarrow>
          (case timingSafeEqual signature (hmac_sha256_hex rt key p) of
             None \<Rightarrow> False
           | Some b \<Rightarrow> b))"

definition doordash_verifyWebhookSignature :: "runtime \<Rightarrow> string option \<Rightarrow> string \<Rightarrow> bool" where
  "doordash_verifyWebhookSignature rt payload signature =
     hmac_verify rt (signingSecret rt) payload signature"

definition instacart_verifyWebhookSignature :: "runtime \<Rightarrow> string option \<Rightarrow> string \<Rightarrow> bool" where
  "instacart_verifyWebhookSignature rt payload signature =
     hmac_verify rt (apiKey rt) payload signature"

text \<open>
  A template literal \<^verbatim>\<open>`... ${v} ...`\<close> converts \<open>v\<close> to a string. On a value that came
  out of a JSON body the conversion throws a TypeError in one case: an object with a key
  \<^verbatim>\<open>toString\<close> of its own, which hides the method and cannot be called. An array
  converts its elements, undefined and null among them to the empty string.
\<close>

fun interpolates :: "jsval \<Rightarrow> bool" where
  "interpolates (JObject kv) = (map_of kv ''toString'' = None)"
| "interpolates (JArray vs) = list_all interpolates vs"
| "interpolates v = True"

definition doordash_event_types :: "jsval list" where
  "doordash_event_types =
     map JStr [''delivery.created'', ''delivery.confirmed'', ''delivery.picked_up'',
               ''delivery.delivered'', ''delivery.cancelled'', ''delivery.returned'']"

definition instacart_event_types :: "jsval list" where
  "instacart_event_types =
     map JStr [''order.created'', ''order.shopping'', ''order.delivering'', ''order.delivered'',
               ''order.cancelled'', ''item.replaced'', ''item.refunded'']"

definition uber_event_types :: "jsval list" where
  "uber_event_types = map JStr [''requests.status_changed'', ''requests.receipt_ready'']"

text \<open>
  The route's log line and \<^verbatim>\<open>processWebhook\<close> of each client. The handlers behind the
  switch on the event type only write to the log. What can throw (\<open>None\<close>) is the reading
  of a field of a missing object, and the conversion of a field to a string for a log
  line: the type and the id of the event always, the order reference in the handler of
  a known event type.
\<close>

definition doordash_processWebhook :: "runtime \<Rightarrow> jsval \<Rightarrow> (string \<times> jsval) list option" where
  "doordash_processWebhook rt event =
     (case (get_prop event ''event_name'', get_prop event ''event_id'',
            get_prop event ''external_delivery_id'', get_prop event ''delivery_status'') of
        (Some en, Some ei, Some ed, Some ds) \<Rightarrow>
          if interpolates en \<and> interpolates ei \<and>
             (if en \<in> set doordash_event_types then interpolates ed else True)
          then Some [(''eventId'', ei), (''eventName'', en), (''externalDeliveryId'', ed),
                     (''deliveryStatus'', ds), (''processedAt'', JNum (processedAt rt))]
          else None
      | _ \<Rightarrow> None)"

definition instacart_processWebhook :: "runtime \<Rightarrow> jsval \<Rightarrow> (string \<times> jsval) list option" where
  "instacart_processWebhook rt event =
     (case (get_prop event ''event_type'', get_prop event ''event_id'',
            get_prop event ''order_id'', get_prop event ''status'') of
        (Some et, Some ei, Some oi, Some st) \<Rightarrow>
          if interpolates et \<and> interpolates ei \<and>
             (if et \<in> set instacart_event_types then interpolates oi else True)
          then Some [(''eventId'', ei), (''eventType'', et), (''orderId'', oi),
                     (''status'', st), (''processedAt'', JNum (processedAt rt))]
          else None
      | _ \<Rightarrow> None)"

definition uber_processWebhook :: "runtime \<Rightarrow> jsval \<Rightarrow> (string \<times> jsval) list option" where
  "uber_processWebhook rt event =
     (case (get_prop event ''event_type'', get_prop event ''event_id'',
            get_prop event ''meta'') of
        (Some et, Some ei, Some meta) \<Rightarrow>
          (case (get_prop meta ''resource_id'', get_prop meta ''user_id'') of
             (Some ri, Some ui) \<Rightarrow>
               if interpolates et \<and> interpolates ei \<and>
                  (if et \<in> set uber_event_types then interpolates ri \<and> interpolates ui
                   else True)
               then Some [(''eventId'', ei), (''eventType'', et), (''resourceId'', ri),
                          (''userId'', ui), (''processedAt'', JNum (processedAt rt))]
               else None
           | _ \<Rightarrow> None)
      | _ \<Rightarrow> None)"

text \<open>\<^verbatim>\<open>result.eventId\<close> and \<^verbatim>\<open>result.processedAt\<close> of the reply.\<close>

definition ack :: "(string \<times> jsval) list \<Rightarrow> reply" where
  "ack result =
     Reply 200 [(''success'', JBool True),
                (''eventId'', case map_of result ''eventId'' of None \<Rightarrow> JUndefined | Some v \<Rightarrow> v),
                (''processedAt'',
                   case map_of result ''processedAt'' of None \<Rightarrow> JUndefined | Some v \<Rightarrow> v)]"

text \<open>
  The condition of the handlers' \<^verbatim>\<open>if\<close>:
  \<^verbatim>\<open>signature && !service.verifyWebhookSignature(rawBody, signature)\<close>. The header is
  undefined when the request does not carry it, and the empty string is falsy.
\<close>

definition signature_refused ::
  "(string option \<Rightarrow> string \<Rightarrow> bool) \<Rightarrow> string option \<Rightarrow> string option \<Rightarrow> bool" where
  "signature_refused verify rawBody signature \<longleftrightarrow>
     (case signature of None \<Rightarrow> False | Some s \<Rightarrow> s \<noteq> [] \<and> \<not> verify rawBody s)"

text \<open>
  The three handlers. None of them holds a reference to the upsell service; the order
  cache is an argument and a result so that what they do to it can be stated.
\<close>

definition doordash_webhook :: "runtime \<Rightarrow> request \<Rightarrow> 'n redis \<Rightarrow> reply \<times> 'n redis" where
  "doordash_webhook rt req r =
     (let rawBody = JSON_stringify rt (body req);
          signature = headers req ''x-doordash-signature''
      in if signature_refused (doordash_verifyWebhookSignature rt) rawBody signature
         then (Reply 401 [(''success'', JBool False),
                          (''error'', JStr ''Invalid webhook signature'')], r)
         else
           (case doordash_processWebhook rt (body req) of
              Some result \<Rightarrow> (ack result, r)
            | None \<Rightarrow> (Reply 500 [(''success'', JBool False),
                                  (''error'', JStr ''Failed to process DoorDash webhook'')], r)))"

definition instacart_webhook :: "runtime \<Rightarrow> request \<Rightarrow> 'n redis \<Rightarrow> reply \<times> 'n redis" where
  "instacart_webhook rt req r =
     (let rawBody = JSON_stringify rt (body req);
          signature = headers req ''x-instacart-signature''
      in if signature_refused (instacart_verifyWebhookSignature rt) rawBody signature
         then (Reply 401 [(''success'', JBool False),
                          (''error'', JStr ''Invalid webhook signature'')], r)
         else
           (case instacart_processWebhook rt (body req) of
              Some result \<Rightarrow> (ack result, r)
            | None \<Rightarrow> (Reply 500 [(''success'', JBool False),
                                  (''error'', JStr ''Failed to process Instacart webhook'')], r)))"

definition uber_webhook :: "runtime \<Rightarrow> request \<Rightarrow> 'n redis \<Rightarrow> reply \<times> 'n redis" where
  "uber_webhook rt req r =
     (case uber_processWebhook rt (body req) of
        Some result \<Rightarrow> (ack result, r)
      | None \<Rightarrow> (Reply 500 [(''success'', JBool False),
                            (''error'', JStr ''Failed to process Uber webhook'')], r))"

section \<open>Ride provider: the token cache\<close>

text \<open>
  The arithmetic of \<^verbatim>\<open>Date.now() + tokenData.expires_in * 1000\<close> is that of doubles. On
  whole numbers it is exact up to \<open>2 ^ 53\<close>; beyond, the result is rounded to 53
  significant bits, to the even neighbour on a tie. \<open>bitlen n\<close> is the number of binary
  digits of \<open>n\<close>.
\<close>

fun bitlen :: "nat \<Rightarrow> nat" where
  "bitlen n = (if n = 0 then 0 else Suc (bitlen (n div 2)))"

declare bitlen.simps [simp del]

definition to_double :: "int \<Rightarrow> int" where
  "to_double x =
     (if \<bar>x\<bar> \<le> 2 ^ 53 then x
      else
        (let e = bitlen (nat \<bar>x\<bar>) - 53;
             q = \<bar>x\<bar> div 2 ^ e;
             rest = \<bar>x\<bar> mod 2 ^ e;
             q' = (if 2 * rest > 2 ^ e \<or> (2 * rest = 2 ^ e \<and> odd q) then q + 1 else q)
         in sgn x * (q' * 2 ^ e)))"

text \<open>
  \<^verbatim>\<open>new Date(value)\<close>: a time value beyond 8.64e15 milliseconds on either side of the
  epoch gives an Invalid Date (\<open>None\<close>), which compares false with everything.
\<close>

definition new_Date :: "int \<Rightarrow> int option" where
  "new_Date v = (if \<bar>v\<bar> \<le> 8640000000000000 then Some v else None)"

record cached_token =
  token :: string
  expiresAt :: "int option"

text \<open>\<^verbatim>\<open>expires_in\<close> is a whole number of seconds.\<close>

record UberOAuth2Token =
  access_token :: string
  token_type :: string
  expires_in :: int
  refresh_token :: string
  scope :: string

text \<open>
  \<^verbatim>\<open>UberService.getValidToken\<close>. \<open>now\<close> is the \<^verbatim>\<open>new Date()\<close> of the test, \<open>now'\<close> the
  \<^verbatim>\<open>Date.now()\<close> read after the refresh; \<open>refreshAccessToken\<close> is the call to the
  provider, which throws or returns token data.
\<close>

definition getValidToken ::
  "(string \<Rightarrow> error + UberOAuth2Token) \<Rightarrow> int \<Rightarrow> int \<Rightarrow> (string \<rightharpoonup> cached_token)
   \<Rightarrow> string \<Rightarrow> string \<Rightarrow> (error + string) \<times> (string \<rightharpoonup> cached_token)" where
  "getValidToken refreshAccessToken now now' tokenCache userId refreshToken =
     (case (case tokenCache userId of
              None \<Rightarrow> None
            | Some cached \<Rightarrow>
                (case expiresAt cached of
                   None \<Rightarrow> None
                 | Some e \<Rightarrow> if e > now then Some cached else None)) of
        Some cached \<Rightarrow> (Inr (token cached), tokenCache)
      | None \<Rightarrow>
          (case refreshAccessToken refreshToken of
             Inl e \<Rightarrow> (Inl e, tokenCache)
           | Inr tokenData \<Rightarrow>
               (Inr (access_token tokenData),
                tokenCache(userId \<mapsto>
                  \<lparr>token = access_token tokenData,
                   expiresAt =
                     new_Date (to_double (now' + to_double (expires_in tokenData * 1000)))\<rparr>))))"

section \<open>Notions used by the properties\<close>

text \<open>
  The price that a catalog gives for an id: that of the first item with the id, as
  \<^verbatim>\<open>catalog.find\<close> returns it (0 for an id the catalog does not have; no accepted order
  has such a line).
\<close>

definition catalogPrice :: "('n::zero) UpsellItem list \<Rightarrow> string \<Rightarrow> 'n" where
  "catalogPrice catalog uid =
     (case find (\<lambda>c. id_c c = uid) catalog of None \<Rightarrow> 0 | Some c \<Rightarrow> price_c c)"

text \<open>A requested line passes validation: its id is in the catalog and the item is available.\<close>

definition valid_line :: "'n UpsellItem list \<Rightarrow> 'n DtoItem \<Rightarrow> bool" where
  "valid_line catalog item \<longleftrightarrow>
     (case find (\<lambda>c. id_c c = upsellId_d item) catalog of None \<Rightarrow> False | Some c \<Rightarrow> available c)"

text \<open>
  Two orders agree on every field other than \<^verbatim>\<open>status\<close>, \<^verbatim>\<open>externalOrderId\<close>,
  \<^verbatim>\<open>externalProvider\<close>, \<^verbatim>\<open>updatedAt\<close> and the three terminal timestamps.
\<close>

definition frame :: "'n UpsellOrder \<Rightarrow> 'n UpsellOrder \<Rightarrow> bool" where
  "frame o1 o2 \<longleftrightarrow>
     id_o o2 = id_o o1 \<and> reservationId o2 = reservationId o1 \<and> propertyId o2 = propertyId o1 \<and>
     guestId o2 = guestId o1 \<and> items o2 = items o1 \<and> totalAmount o2 = totalAmount o1 \<and>
     currency o2 = currency o1 \<and> paymentIntentId o2 = paymentIntentId o1 \<and>
     scheduledFor o2 = scheduledFor o1 \<and> createdAt o2 = createdAt o1"

text \<open>The cache holds, under the order's id, a copy of the order.\<close>

definition tracked :: "'n redis \<Rightarrow> 'n UpsellOrder \<Rightarrow> 'n UpsellOrder \<Rightarrow> bool" where
  "tracked r order stored \<longleftrightarrow> order_cache r (id_o order) = Some stored \<and> frame order stored"

text \<open>
  Every dispatch to a provider throws: the ride request always fails, and of the two
  calls that a delivery or a grocery order needs, one always fails.
\<close>

definition provider_calls_throw :: "world \<Rightarrow> bool" where
  "provider_calls_throw w \<longleftrightarrow>
     (\<forall>i m. isl (uber_requestRide w i m)) \<and>
     (\<forall>i m. isl (doordash_getDeliveryQuote w i m) \<or> (\<forall>q. isl (doordash_createDelivery w i q m))) \<and>
     (\<forall>i m. isl (instacart_getOrderEstimate w i m) \<or> isl (instacart_createOrder w i m))"

text \<open>The order object that \<^verbatim>\<open>createUpsellOrder\<close> builds from the priced lines.\<close>

definition new_order ::
  "world \<Rightarrow> 'n CreateUpsellOrderDto \<Rightarrow> string \<Rightarrow> string \<Rightarrow> 'n \<Rightarrow> 'n OrderItem list
   \<Rightarrow> 'n UpsellOrder" where
  "new_order w dto gid pid tot its =
     \<lparr>id_o = uuidv4 w 0, reservationId = reservationId_d dto, propertyId = pid,
      guestId = gid, items = its, totalAmount = tot,
      currency = ''USD'', status = PENDING, paymentIntentId = None,
      externalOrderId = None, externalProvider = None,
      scheduledFor = scheduledFor_d dto, completedAt = None,
      cancelledAt = None, refundedAt = None,
      createdAt = clock w 0, updatedAt = clock w 1\<rparr>"

text \<open>\<^verbatim>\<open>catalogItem?.metadata?.provider\<close> for an order line.\<close>

definition provider_of :: "'n UpsellItem list \<Rightarrow> 'n OrderItem \<Rightarrow> jsval" where
  "provider_of catalog item =
     opt_field (case find (\<lambda>c. id_c c = upsellId item) catalog of
                  None \<Rightarrow> None | Some c \<Rightarrow> metadata_c c) ''provider''"

text \<open>
  What \<^verbatim>\<open>getValidToken\<close> does when it refreshes: the block of the source under
  ``Token expired or not cached, refresh it''.
\<close>

definition refreshed ::
  "(string \<Rightarrow> error + UberOAuth2Token) \<Rightarrow> int \<Rightarrow> (string \<rightharpoonup> cached_token) \<Rightarrow> string \<Rightarrow> string
   \<Rightarrow> (error + string) \<times> (string \<rightharpoonup> cached_token)" where
  "refreshed refreshAccessToken now' tokenCache userId refreshToken =
     (case refreshAccessToken refreshToken of
        Inl e \<Rightarrow> (Inl e, tokenCache)
      | Inr tokenData \<Rightarrow>
          (Inr (access_token tokenData),
           tokenCache(userId \<mapsto>
             \<lparr>token = access_token tokenData,
              expiresAt =
                new_Date (to_double (now' + to_double (expires_in tokenData * 1000)))\<rparr>)))"

text \<open>The reply of the two signed routes to a refused signature.\<close>

definition unauthorized :: reply where
  "unauthorized =
     Reply 401 [(''success'', JBool False), (''error'', JStr ''Invalid webhook signature'')]"

section \<open>Concrete inputs\<close>

definition e503 :: AxiosError where
  "e503 = \<lparr>code = Some ''ERR_BAD_RESPONSE'', response_status = Some 503\<rparr>"

definition e429 :: AxiosError where
  "e429 = \<lparr>code = Some ''ERR_BAD_REQUEST'', response_status = Some 429\<rparr>"

definition e400 :: AxiosError where
  "e400 = \<lparr>code = Some ''ERR_BAD_REQUEST'', response_status = Some 400\<rparr>"

text \<open>A provider that answers 503 twice and then succeeds.\<close>

definition two_failures_then_success :: "nat \<Rightarrow> string outcome" where
  "two_failures_then_success k = (if k < 2 then Rejected e503 else Resolved ''ok'')"

text \<open>
  A cached catalog with an available item, an unavailable one and two items bound to
  providers; amounts in cents.
\<close>

definition catalog0 :: "int UpsellItem list" where
  "catalog0 =
     [mk_item ''early-checkin'' EARLY_CHECKIN ''Early Check-in'' ''Check in early'' 5000 None,
      (mk_item ''spa'' LOCAL_ACTIVITIES ''Spa Day'' ''Spa access'' 3000 None)
        \<lparr>available := False\<rparr>,
      mk_item ''ride'' TRANSPORTATION ''Uber Ride'' ''Ride'' 0
        (Some [''provider'' \<mapsto> JStr ''uber'']),
      mk_item ''food'' FOOD_DELIVERY ''DoorDash Food Delivery'' ''Food'' 0
        (Some [''provider'' \<mapsto> JStr ''doordash''])]"

definition redis1 :: "int redis" where
  "redis1 = \<lparr>catalog_cache = [''property-123'' \<mapsto> catalog0], order_cache = Map.empty\<rparr>"

text \<open>A world in which every provider call throws.\<close>

definition world0 :: world where
  "world0 = \<lparr>uuidv4 = (\<lambda>k. if k = 0 then ''order-1'' else ''item''),
             clock = (\<lambda>k. 1000 + int k),
             uber_requestRide = (\<lambda>i m. Inl ''timeout''),
             doordash_getDeliveryQuote = (\<lambda>i m. Inl ''timeout''),
             doordash_createDelivery = (\<lambda>i q m. Inl ''timeout''),
             instacart_getOrderEstimate = (\<lambda>i m. Inl ''timeout''),
             instacart_createOrder = (\<lambda>i m. Inl ''timeout'')\<rparr>"

text \<open>A world in which the ride provider answers and the others do not.\<close>

definition world1 :: world where
  "world1 = world0\<lparr>uber_requestRide := (\<lambda>i m. Inr ''ride-1'')\<rparr>"

definition ride_metadata :: metadata where
  "ride_metadata = [''userToken'' \<mapsto> JStr ''tok'', ''productId'' \<mapsto> JStr ''uberx'']"

definition food_metadata :: metadata where
  "food_metadata =
     [''pickupAddress'' \<mapsto> JStr ''1 Main St'', ''deliveryAddress'' \<mapsto> JStr ''2 Side St'',
      ''items'' \<mapsto> JArray [JStr ''pizza'']]"

text \<open>Two early check-ins; the guest adds a price of its own to the line's metadata.\<close>

definition dto_checkin :: "int CreateUpsellOrderDto" where
  "dto_checkin = \<lparr>reservationId_d = ''res-1'',
     items_d = [\<lparr>upsellId_d = ''early-checkin'', quantity_d = 2,
                 metadata_d = Some [''price'' \<mapsto> JNum 1]\<rparr>],
     scheduledFor_d = None\<rparr>"

definition dto_ride_food :: "int CreateUpsellOrderDto" where
  "dto_ride_food = \<lparr>reservationId_d = ''res-1'',
     items_d = [\<lparr>upsellId_d = ''ride'', quantity_d = 1, metadata_d = Some ride_metadata\<rparr>,
                \<lparr>upsellId_d = ''food'', quantity_d = 1, metadata_d = Some food_metadata\<rparr>],
     scheduledFor_d = None\<rparr>"

text \<open>An unavailable item first, then an id that the catalog does not have.\<close>

definition dto_spa_ghost :: "int CreateUpsellOrderDto" where
  "dto_spa_ghost = \<lparr>reservationId_d = ''res-1'',
     items_d = [\<lparr>upsellId_d = ''spa'', quantity_d = 1, metadata_d = None\<rparr>,
                \<lparr>upsellId_d = ''ghost'', quantity_d = 1, metadata_d = None\<rparr>],
     scheduledFor_d = None\<rparr>"

text \<open>A cached order that an earlier dispatch has confirmed with the ride provider.\<close>

definition order0 :: "int UpsellOrder" where
  "order0 = \<lparr>id_o = ''o-1'', reservationId = ''res-1'', propertyId = ''property-123'',
     guestId = ''guest-1'',
     items = [\<lparr>upsellId = ''ride'', quantity = 1, price = 0, metadata = Some ride_metadata\<rparr>,
              \<lparr>upsellId = ''food'', quantity = 1, price = 0, metadata = None\<rparr>],
     totalAmount = 0, currency = ''USD'', status = CONFIRMED,
     paymentIntentId = None, externalOrderId = Some ''ride-1'', externalProvider = Some ''uber'',
     scheduledFor = None, completedAt = None, cancelledAt = None, refundedAt = None,
     createdAt = 100, updatedAt = 200\<rparr>"

definition redis0 :: "int redis" where
  "redis0 = \<lparr>catalog_cache = Map.empty, order_cache = [''o-1'' \<mapsto> order0]\<rparr>"

definition food_line :: "int OrderItem" where
  "food_line = \<lparr>upsellId = ''food'', quantity = 1, price = 0, metadata = None\<rparr>"

definition runtime0 :: runtime where
  "runtime0 = \<lparr>hmac_sha256_hex = (\<lambda>key data. ''5f2d''), JSON_stringify = (\<lambda>v. Some ''{}''),
                signingSecret = ''dd-secret'', apiKey = ''ic-key'', processedAt = 5000\<rparr>"

definition delivered_event :: jsval where
  "delivered_event =
     JObject [(''event_id'', JStr ''evt-1''), (''event_name'', JStr ''delivery.delivered''),
              (''event_type'', JStr ''order.delivered''), (''external_delivery_id'', JStr ''D-1''),
              (''order_id'', JStr ''I-1'')]"

definition unsigned_request :: request where
  "unsigned_request = \<lparr>body = delivered_event, headers = Map.empty\<rparr>"

definition forged_request :: request where
  "forged_request = \<lparr>body = delivered_event,
     headers = [''x-doordash-signature'' \<mapsto> ''0000'', ''x-instacart-signature'' \<mapsto> ''0000'']\<rparr>"

definition refresh0 :: "string \<Rightarrow> error + UberOAuth2Token" where
  "refresh0 rtok = Inr \<lparr>access_token = ''new-token'', token_type = ''Bearer'', expires_in = 3600,
                        refresh_token = rtok, scope = ''request''\<rparr>"

text \<open>A token that expires at millisecond 1000.\<close>

definition tokenCache0 :: "string \<rightharpoonup> cached_token" where
  "tokenCache0 = [''user-1'' \<mapsto> \<lparr>token = ''old-token'', expiresAt = Some 1000\<rparr>]"

section \<open>Properties of the retry interceptor\<close>

lemma axiosInstance_retried: "\<not> not_retry r \<Longrightarrow> axiosInstance w r k = (Suc k, [], w k)"
  by (subst axiosInstance.simps) (simp split: outcome.splits)

lemma axiosInstance_not_retryable:
  "w k = Rejected e \<Longrightarrow> \<not> retryable e \<Longrightarrow> axiosInstance w r k = (Suc k, [], Rejected e)"
  by (subst axiosInstance.simps) simp

text \<open>
  A fresh request is transmitted once or twice: the interceptor retries only while
  \<^verbatim>\<open>_retry\<close> is falsy, and the first retry sets it to 1.
\<close>

lemma axiosInstance_first:
  "axiosInstance w None 0 =
     (case w 0 of
        Resolved resp \<Rightarrow> (1, [], Resolved resp)
      | Rejected e \<Rightarrow> if retryable e then (2, [1000], w 1) else (1, [], Rejected e))"
  by (subst axiosInstance.simps)
     (simp add: not_retry_def next_retry_def backoff_delay_def axiosInstance_retried
           split: outcome.splits)

lemma attempts_at_most_two: "attempts (axiosInstance w None 0) \<le> 2"
  by (simp add: axiosInstance_first attempts_def split: outcome.splits)

text \<open>The second half of C3 holds: a first failure that is not transient is surfaced at once.\<close>

lemma non_transient_one_attempt:
  "w 0 = Rejected e \<Longrightarrow> \<not> retryable e \<Longrightarrow>
   attempts (axiosInstance w None 0) = 1 \<and> settled (axiosInstance w None 0) = Rejected e"
  by (simp add: axiosInstance_first attempts_def settled_def)

lemma non_transient_one_attempt_400:
  "attempts (axiosInstance (\<lambda>k. if k = 0 then Rejected e400 else Resolved ''ok'') None 0) = 1"
  by (simp add: axiosInstance_first attempts_def e400_def retryable_def)

text \<open>
  C3 (first half): two transient failures followed by a success should give three
  attempts and the success. The interceptor stops after the second transmission and
  rejects with the second 503: after the first retry \<^verbatim>\<open>_retry\<close> is 1, and
  \<^verbatim>\<open>!originalRequest._retry\<close> is false from then on.
\<close>

theorem retry_gives_up_after_second_failure:
  "axiosInstance two_failures_then_success None 0 = (2, [1000], Rejected e503)"
  by (simp add: axiosInstance_first two_failures_then_success_def e503_def retryable_def)

text \<open>
  C6, as stated, fails: a 429 response is transmitted once and surfaced, with no retry
  and no delay.
\<close>

theorem rate_limited_not_retried_counterexample:
  "response_status e429 = Some 429 \<and>
   axiosInstance (\<lambda>k. Rejected e429 :: string outcome) None 0 = (1, [], Rejected e429)"
  by (simp add: axiosInstance_first e429_def retryable_def)

text \<open>
  C6, amended: a rejection with status 429 (and an error code that is not one of the two
  timeout codes, as for every answered request) is not retried by any provider client:
  the request is transmitted once, nothing is slept and the error is surfaced.
\<close>

theorem rate_limited_surfaced:
  "response_status e = Some 429 \<Longrightarrow> code e \<noteq> Some ''ECONNABORTED'' \<Longrightarrow>
   code e \<noteq> Some ''ETIMEDOUT'' \<Longrightarrow> w k = Rejected e \<Longrightarrow>
   axiosInstance w r k = (Suc k, [], Rejected e)"
  by (subst axiosInstance.simps) (simp add: retryable_def)

theorem rate_limited_surfaced_witness:
  "axiosInstance (\<lambda>k. Rejected e429 :: string outcome) None 5 = (6, [], Rejected e429)"
  using rate_limited_surfaced [of e429 "\<lambda>k. Rejected e429 :: string outcome" 5 None]
  by (simp add: e429_def)

section \<open>Properties of the webhook routes\<close>

text \<open>
  C10: \<^verbatim>\<open>UberService.verifyWebhookSignature\<close> is true of every payload and signature, and
  the ride provider's webhook route never answers 401.
\<close>

theorem uber_signature_always_accepted:
  "uber_verifyWebhookSignature payload signature \<and>
   reply_code (fst (uber_webhook rt req r)) \<noteq> 401"
  by (simp add: uber_verifyWebhookSignature_def uber_webhook_def ack_def split: option.splits)

lemma hmac_verify_iff:
  "hmac_verify rt key payload s \<longleftrightarrow> (\<exists>p. payload = Some p \<and> s = hmac_sha256_hex rt key p)"
  by (auto simp: hmac_verify_def timingSafeEqual_def split: option.splits)

text \<open>
  C2, as stated, fails: a request that carries no signature header is not verified at
  all. Both signed routes process the event and answer 200.
\<close>

theorem webhook_without_signature_accepted:
  "headers unsigned_request ''x-doordash-signature'' = None \<and>
   headers unsigned_request ''x-instacart-signature'' = None \<and>
   reply_code (fst (doordash_webhook runtime0 unsigned_request redis0)) = 200 \<and>
   reply_code (fst (instacart_webhook runtime0 unsigned_request redis0)) = 200"
  by (simp add: unsigned_request_def delivered_event_def doordash_webhook_def
        instacart_webhook_def signature_refused_def doordash_processWebhook_def
        instacart_processWebhook_def ack_def)

text \<open>
  C2, amended: on the food and the grocery route, a request whose signature header is
  present, not empty and does not verify is answered 401 whatever its body is, before
  any field of the event is read; a request whose header is absent or empty is never
  answered 401 (it is not verified); and no request to either route changes the order
  cache.
\<close>

theorem webhook_signature_gate:
  "(\<forall>s. headers req ''x-doordash-signature'' = Some s \<and> s \<noteq> [] \<and>
        \<not> doordash_verifyWebhookSignature rt (JSON_stringify rt (body req)) s \<longrightarrow>
        doordash_webhook rt req r = (unauthorized, r)) \<and>
   (\<forall>s. headers req ''x-instacart-signature'' = Some s \<and> s \<noteq> [] \<and>
        \<not> instacart_verifyWebhookSignature rt (JSON_stringify rt (body req)) s \<longrightarrow>
        instacart_webhook rt req r = (unauthorized, r)) \<and>
   (headers req ''x-doordash-signature'' \<in> {None, Some []} \<longrightarrow>
        reply_code (fst (doordash_webhook rt req r)) \<noteq> 401) \<and>
   (headers req ''x-instacart-signature'' \<in> {None, Some []} \<longrightarrow>
        reply_code (fst (instacart_webhook rt req r)) \<noteq> 401) \<and>
   snd (doordash_webhook rt req r) = r \<and> snd (instacart_webhook rt req r) = r"
  by (auto simp: doordash_webhook_def instacart_webhook_def signature_refused_def
        unauthorized_def ack_def Let_def split: option.splits)

theorem webhook_signature_gate_witness:
  "doordash_webhook runtime0 forged_request redis0 = (unauthorized, redis0) \<and>
   instacart_webhook runtime0 forged_request redis0 = (unauthorized, redis0) \<and>
   reply_code (fst (doordash_webhook runtime0 unsigned_request redis0)) \<noteq> 401 \<and>
   reply_code (fst (instacart_webhook runtime0 unsigned_request redis0)) \<noteq> 401"
proof -
  have "\<not> doordash_verifyWebhookSignature runtime0
            (JSON_stringify runtime0 (body forged_request)) ''0000''"
       "\<not> instacart_verifyWebhookSignature runtime0
            (JSON_stringify runtime0 (body forged_request)) ''0000''"
    by (simp_all add: doordash_verifyWebhookSignature_def instacart_verifyWebhookSignature_def
          hmac_verify_iff runtime0_def)
  moreover have "headers forged_request ''x-doordash-signature'' = Some ''0000''"
    "headers forged_request ''x-instacart-signature'' = Some ''0000''"
    "headers unsigned_request ''x-doordash-signature'' = None"
    "headers unsigned_request ''x-instacart-signature'' = None"
    by (simp_all add: forged_request_def unsigned_request_def)
  ultimately show ?thesis
    using webhook_signature_gate [where req = forged_request and rt = runtime0 and r = redis0]
          webhook_signature_gate [where req = unsigned_request and rt = runtime0 and r = redis0]
    by simp
qed

section \<open>Properties of the token cache\<close>

text \<open>
  The test of the code is \<^verbatim>\<open>cached.expiresAt > new Date()\<close>. Both sides are whole
  numbers of milliseconds, so the test is \<open>now + 1 \<le> expiresAt\<close>.
\<close>

lemma getValidToken_cases:
  "getValidToken rf now now' tokenCache userId rtok =
     (case tokenCache userId of
        None \<Rightarrow> refreshed rf now' tokenCache userId rtok
      | Some cached \<Rightarrow>
          (case expiresAt cached of
             None \<Rightarrow> refreshed rf now' tokenCache userId rtok
           | Some e \<Rightarrow>
               if now + 1 \<le> e then (Inr (token cached), tokenCache)
               else refreshed rf now' tokenCache userId rtok))"
  by (auto simp: getValidToken_def refreshed_def split: option.splits)

text \<open>
  The margin is one tick of the clock and no more: a token that expires at millisecond
  1000 is returned at every earlier reading of the clock.
\<close>

lemma reused_until_expiry:
  "now < 1000 \<Longrightarrow>
   getValidToken refresh0 now now' tokenCache0 ''user-1'' ''r-1'' = (Inr ''old-token'', tokenCache0)"
  by (simp add: tokenCache0_def getValidToken_cases)

lemma no_margin_beyond_one_tick:
  "\<not> (\<exists>m>1. \<forall>now. fst (getValidToken refresh0 now now tokenCache0 ''user-1'' ''r-1'') =
                      Inr ''old-token'' \<longrightarrow> now + m \<le> 1000)"
proof
  assume "\<exists>m>1. \<forall>now. fst (getValidToken refresh0 now now tokenCache0 ''user-1'' ''r-1'') =
                     Inr ''old-token'' \<longrightarrow> now + m \<le> 1000"
  then obtain m :: int where "1 < m"
    "fst (getValidToken refresh0 999 999 tokenCache0 ''user-1'' ''r-1'') = Inr ''old-token''
       \<longrightarrow> 999 + m \<le> 1000"
    by blast
  moreover
  have "fst (getValidToken refresh0 999 999 tokenCache0 ''user-1'' ''r-1'') = Inr ''old-token''"
    by (simp add: reused_until_expiry)
  ultimately show False by simp
qed

lemma refreshed_example:
  "refreshed refresh0 1002 tokenCache0 ''user-1'' ''r-1'' =
     (Inr ''new-token'',
      tokenCache0(''user-1'' \<mapsto> \<lparr>token = ''new-token'', expiresAt = Some 3601002\<rparr>))"
  by (simp add: refreshed_def refresh0_def to_double_def new_Date_def)

text \<open>
  C7: there is a positive safety margin \<open>m\<close> such that, for every user id with a cached
  token, the token is returned as it is (and the cache left alone) while
  \<open>now + m \<le> expiresAt\<close>, and is not returned when \<open>now + m > expiresAt\<close>: the refresh runs
  in its place, before any call is made with the token. The margin that the code keeps
  is one millisecond, the step of its clock.
\<close>

theorem getValidToken_safety_margin:
  "\<exists>m::int. 0 < m \<and>
     (\<forall>refreshAccessToken now now' tokenCache userId refreshToken cached e.
        tokenCache userId = Some cached \<and> expiresAt cached = Some e \<longrightarrow>
        (now + m \<le> e \<longrightarrow>
           getValidToken refreshAccessToken now now' tokenCache userId refreshToken =
             (Inr (token cached), tokenCache)) \<and>
        (now + m > e \<longrightarrow>
           getValidToken refreshAccessToken now now' tokenCache userId refreshToken =
             refreshed refreshAccessToken now' tokenCache userId refreshToken))"
  by (rule exI [of _ 1]) (simp add: getValidToken_cases)

theorem getValidToken_safety_margin_witness:
  "(\<exists>m::int. 0 < m \<and>
      getValidToken refresh0 (1000 - m) 1002 tokenCache0 ''user-1'' ''r-1'' =
        (Inr ''old-token'', tokenCache0)) \<and>
   getValidToken refresh0 1000 1002 tokenCache0 ''user-1'' ''r-1'' =
     (Inr ''new-token'',
      tokenCache0(''user-1'' \<mapsto> \<lparr>token = ''new-token'', expiresAt = Some 3601002\<rparr>))"
proof -
  from getValidToken_safety_margin obtain m :: int where m: "0 < m"
    and h: "\<And>refreshAccessToken now now' tokenCache userId refreshToken cached e.
        tokenCache userId = Some cached \<and> expiresAt cached = Some e \<Longrightarrow>
        (now + m \<le> e \<longrightarrow>
           getValidToken refreshAccessToken now now' tokenCache userId refreshToken =
             (Inr (token cached), tokenCache)) \<and>
        (now + m > e \<longrightarrow>
           getValidToken refreshAccessToken now now' tokenCache userId refreshToken =
             refreshed refreshAccessToken now' tokenCache userId refreshToken)"
    by blast
  have c: "tokenCache0 ''user-1'' = Some \<lparr>token = ''old-token'', expiresAt = Some 1000\<rparr>"
    by (simp add: tokenCache0_def)
  from h [where tokenCache = tokenCache0 and userId = "''user-1''"
            and cached = "\<lparr>token = ''old-token'', expiresAt = Some 1000\<rparr>" and e = 1000
            and now = "1000 - m" and refreshAccessToken = refresh0 and now' = 1002
            and refreshToken = "''r-1''"] c
  have 1: "getValidToken refresh0 (1000 - m) 1002 tokenCache0 ''user-1'' ''r-1'' =
             (Inr ''old-token'', tokenCache0)"
    by simp
  from h [where tokenCache = tokenCache0 and userId = "''user-1''"
            and cached = "\<lparr>token = ''old-token'', expiresAt = Some 1000\<rparr>" and e = 1000
            and now = 1000 and refreshAccessToken = refresh0 and now' = 1002
            and refreshToken = "''r-1''"] c m
  have 2: "getValidToken refresh0 1000 1002 tokenCache0 ''user-1'' ''r-1'' =
             refreshed refresh0 1002 tokenCache0 ''user-1'' ''r-1''"
    by simp
  from m 1 2 refreshed_example show ?thesis by auto
qed

section \<open>Properties of the upsell service\<close>

subsection \<open>Status updates\<close>

lemma updateOrderStatus_found:
  "order_cache r orderId = Some order \<Longrightarrow>
   updateOrderStatus t t' r orderId st ext prov =
     (let updated = order\<lparr>status := st, externalOrderId := ext, externalProvider := prov,
                          updatedAt := t,
                          completedAt := if st = COMPLETED then Some t' else completedAt order,
                          cancelledAt := if st = CANCELLED then Some t' else cancelledAt order,
                          refundedAt := if st = REFUNDED then Some t' else refundedAt order\<rparr>
      in (Inr updated, cacheOrder r updated))"
  by (simp add: updateOrderStatus_def getOrderById_def getCachedOrder_def Let_def)

lemma updateOrderStatus_missing:
  "order_cache r orderId = None \<Longrightarrow>
   updateOrderStatus t t' r orderId st ext prov = (Inl (Error ''Order not found''), r)"
  by (simp add: updateOrderStatus_def getOrderById_def getCachedOrder_def)

text \<open>
  C8: when no order is cached under the id, \<^verbatim>\<open>updateOrderStatus\<close> fails with
  ``Order not found'' and the cache is unchanged. When an order is, the call returns the
  updated order and writes it to the cache under the order's id; its status is the
  requested one; \<^verbatim>\<open>completedAt\<close>, \<^verbatim>\<open>cancelledAt\<close> and \<^verbatim>\<open>refundedAt\<close> are set to the time
  of the call exactly when the new status is COMPLETED, CANCELLED and REFUNDED, and keep
  their value otherwise.
\<close>

theorem updateOrderStatus_applies_status:
  "(order_cache r orderId = None \<longrightarrow>
      updateOrderStatus t t' r orderId st ext prov = (Inl (Error ''Order not found''), r)) \<and>
   (\<forall>order. order_cache r orderId = Some order \<longrightarrow>
      (\<exists>updated. updateOrderStatus t t' r orderId st ext prov =
                    (Inr updated, r\<lparr>order_cache := (order_cache r)(id_o order \<mapsto> updated)\<rparr>) \<and>
         status updated = st \<and>
         completedAt updated = (if st = COMPLETED then Some t' else completedAt order) \<and>
         cancelledAt updated = (if st = CANCELLED then Some t' else cancelledAt order) \<and>
         refundedAt updated = (if st = REFUNDED then Some t' else refundedAt order)))"
  by (simp add: updateOrderStatus_found updateOrderStatus_missing cacheOrder_def Let_def)

theorem updateOrderStatus_applies_status_witness:
  "order_cache redis0 ''o-2'' = None \<and>
   updateOrderStatus 300 301 redis0 ''o-2'' COMPLETED None None =
     (Inl (Error ''Order not found''), redis0) \<and>
   order_cache redis0 ''o-1'' = Some order0 \<and>
   (\<exists>updated. updateOrderStatus 300 301 redis0 ''o-1'' COMPLETED None None =
        (Inr updated, redis0\<lparr>order_cache := (order_cache redis0)(id_o order0 \<mapsto> updated)\<rparr>) \<and>
      status updated = COMPLETED \<and> completedAt updated = Some 301 \<and>
      cancelledAt updated = None \<and> refundedAt updated = None)"
proof -
  have a: "order_cache redis0 ''o-2'' = None" by (simp add: redis0_def)
  have b: "order_cache redis0 ''o-1'' = Some order0" by (simp add: redis0_def)
  have c: "completedAt order0 = None" "cancelledAt order0 = None" "refundedAt order0 = None"
    by (simp_all add: order0_def)
  from updateOrderStatus_applies_status [of redis0 "''o-2''" 300 301 COMPLETED None None] a
  have 1: "updateOrderStatus 300 301 redis0 ''o-2'' COMPLETED None None =
             (Inl (Error ''Order not found''), redis0)"
    by blast
  from updateOrderStatus_applies_status [of redis0 "''o-1''" 300 301 COMPLETED None None] b
  obtain updated where "updateOrderStatus 300 301 redis0 ''o-1'' COMPLETED None None =
        (Inr updated, redis0\<lparr>order_cache := (order_cache redis0)(id_o order0 \<mapsto> updated)\<rparr>)"
      "status updated = COMPLETED" "completedAt updated = Some 301"
      "cancelledAt updated = cancelledAt order0" "refundedAt updated = refundedAt order0"
    by auto
  with a b c 1 show ?thesis by auto
qed

subsection \<open>Dispatch to the providers\<close>

text \<open>
  Once the order is in the cache under its id, every status update of the dispatch loop
  finds it, and writes back a copy under the same id.
\<close>

lemma updateOrderStatus_tracked:
  assumes "tracked r order stored"
  shows "\<exists>stored' r'. updateOrderStatus t t' r (id_o order) st ext prov = (Inr stored', r') \<and>
           tracked r' order stored' \<and> frame stored stored' \<and> status stored' = st \<and>
           externalOrderId stored' = ext \<and> externalProvider stored' = prov \<and>
           catalog_cache r' = catalog_cache r"
  using assms
  by (simp add: tracked_def updateOrderStatus_found Let_def cacheOrder_def frame_def)

lemma processUberRideRequest_tracked:
  assumes "tracked r order stored"
  shows "(\<exists>e. processUberRideRequest w i r order item = (Inl e, r)) \<or>
         (\<exists>r' stored'. processUberRideRequest w i r order item = (Inr (), r') \<and>
            tracked r' order stored' \<and> \<not> isl (uber_requestRide w i (metadata item)))"
proof -
  from updateOrderStatus_tracked [OF assms]
  have u: "\<And>t t' st ext prov. \<exists>stored' r'.
      updateOrderStatus t t' r (id_o order) st ext prov = (Inr stored', r') \<and> tracked r' order stored'"
    by blast
  show ?thesis
  proof (cases "uber_requestRide w i (metadata item)")
    case (Inl m)
    then show ?thesis by (simp add: processUberRideRequest_def Let_def)
  next
    case (Inr rid)
    from u [of "clock w (2 * i + 2)" "clock w (2 * i + 2)" CONFIRMED "Some rid" "Some ''uber''"]
    obtain stored' r' where
      "updateOrderStatus (clock w (2 * i + 2)) (clock w (2 * i + 2)) r (id_o order) CONFIRMED
         (Some rid) (Some ''uber'') = (Inr stored', r')" "tracked r' order stored'"
      by blast
    with Inr show ?thesis by (auto simp add: processUberRideRequest_def Let_def)
  qed
qed

lemma processDoorDashDelivery_tracked:
  assumes "tracked r order stored"
  shows "(\<exists>e. processDoorDashDelivery w i r order item = (Inl e, r)) \<or>
         (\<exists>r' stored'. processDoorDashDelivery w i r order item = (Inr (), r') \<and>
            tracked r' order stored' \<and>
            \<not> isl (doordash_getDeliveryQuote w i (metadata item)) \<and>
            (\<exists>q. \<not> isl (doordash_createDelivery w i q (metadata item))))"
proof -
  from updateOrderStatus_tracked [OF assms]
  have u: "\<And>t t' st ext prov. \<exists>stored' r'.
      updateOrderStatus t t' r (id_o order) st ext prov = (Inr stored', r') \<and> tracked r' order stored'"
    by blast
  show ?thesis
  proof (cases "doordash_getDeliveryQuote w i (metadata item)")
    case (Inl m)
    then show ?thesis by (simp add: processDoorDashDelivery_def Let_def)
  next
    case q: (Inr quote)
    show ?thesis
    proof (cases "doordash_createDelivery w i quote (metadata item)")
      case (Inl m)
      with q show ?thesis by (simp add: processDoorDashDelivery_def Let_def)
    next
      case (Inr did)
      from u [of "clock w (2 * i + 2)" "clock w (2 * i + 2)" CONFIRMED "Some did" "Some ''doordash''"]
      obtain stored' r' where
        "updateOrderStatus (clock w (2 * i + 2)) (clock w (2 * i + 2)) r (id_o order) CONFIRMED
           (Some did) (Some ''doordash'') = (Inr stored', r')" "tracked r' order stored'"
        by blast
      moreover have "\<exists>q. \<not> isl (doordash_createDelivery w i q (metadata item))"
        using Inr by (intro exI [of _ quote]) simp
      ultimately show ?thesis using q Inr
        by (auto simp add: processDoorDashDelivery_def Let_def)
    qed
  qed
qed

lemma processInstacartOrder_tracked:
  assumes "tracked r order stored"
  shows "(\<exists>e. processInstacartOrder w i r order item = (Inl e, r)) \<or>
         (\<exists>r' stored'. processInstacartOrder w i r order item = (Inr (), r') \<and>
            tracked r' order stored' \<and>
            \<not> isl (instacart_getOrderEstimate w i (metadata item)) \<and>
            \<not> isl (instacart_createOrder w i (metadata item)))"
proof -
  from updateOrderStatus_tracked [OF assms]
  have u: "\<And>t t' st ext prov. \<exists>stored' r'.
      updateOrderStatus t t' r (id_o order) st ext prov = (Inr stored', r') \<and> tracked r' order stored'"
    by blast
  show ?thesis
  proof (cases "instacart_getOrderEstimate w i (metadata item)")
    case (Inl m)
    then show ?thesis by (simp add: processInstacartOrder_def Let_def)
  next
    case q: (Inr estimate)
    show ?thesis
    proof (cases "instacart_createOrder w i (metadata item)")
      case (Inl m)
      with q show ?thesis by (simp add: processInstacartOrder_def Let_def)
    next
      case (Inr oid)
      from u [of "clock w (2 * i + 2)" "clock w (2 * i + 2)" CONFIRMED "Some oid" "Some ''instacart''"]
      obtain stored' r' where
        "updateOrderStatus (clock w (2 * i + 2)) (clock w (2 * i + 2)) r (id_o order) CONFIRMED
           (Some oid) (Some ''instacart'') = (Inr stored', r')" "tracked r' order stored'"
        by blast
      with q Inr show ?thesis by (auto simp add: processInstacartOrder_def Let_def)
    qed
  qed
qed

text \<open>
  A dispatch throws and leaves the cache alone, or returns; it returns with a changed
  cache only after a provider call has succeeded.
\<close>

lemma dispatch_tracked:
  assumes "tracked r order stored"
  shows "(\<exists>e. dispatch w i r order item p = (Inl e, r)) \<or>
         dispatch w i r order item p = (Inr (), r) \<or>
         (\<exists>r' stored'. dispatch w i r order item p = (Inr (), r') \<and> tracked r' order stored' \<and>
            \<not> provider_calls_throw w)"
proof -
  consider "p = ''uber''" | "p = ''doordash''" | "p = ''instacart''"
    | "p \<noteq> ''uber''" "p \<noteq> ''doordash''" "p \<noteq> ''instacart''" by blast
  then show ?thesis
  proof cases
    case 1
    have "\<not> isl (uber_requestRide w i (metadata item)) \<Longrightarrow> \<not> provider_calls_throw w"
      by (auto simp: provider_calls_throw_def)
    with 1 processUberRideRequest_tracked [OF assms, of w i item] show ?thesis
      by (auto simp: dispatch_def)
  next
    case 2
    have "\<not> isl (doordash_getDeliveryQuote w i (metadata item)) \<Longrightarrow>
          \<exists>q. \<not> isl (doordash_createDelivery w i q (metadata item)) \<Longrightarrow>
          \<not> provider_calls_throw w"
      unfolding provider_calls_throw_def by blast
    with 2 processDoorDashDelivery_tracked [OF assms, of w i item] show ?thesis
      unfolding dispatch_def by auto
  next
    case 3
    have "\<not> isl (instacart_getOrderEstimate w i (metadata item)) \<Longrightarrow>
          \<not> isl (instacart_createOrder w i (metadata item)) \<Longrightarrow>
          \<not> provider_calls_throw w"
      unfolding provider_calls_throw_def by blast
    with 3 processInstacartOrder_tracked [OF assms, of w i item] show ?thesis
      unfolding dispatch_def by auto
  next
    case 4
    then show ?thesis by (simp add: dispatch_def)
  qed
qed

lemma processItem_tracked:
  assumes "tracked r order stored"
  shows "\<exists>r' stored'. processItem w i r order catalog item = (Inr (), r') \<and>
           tracked r' order stored' \<and>
           (provider_calls_throw w \<and> status stored = PENDING \<longrightarrow> status stored' = PENDING)"
proof -
  let ?prov = "opt_field (case find (\<lambda>c. id_c c = upsellId item) catalog of
                            None \<Rightarrow> None | Some c \<Rightarrow> metadata_c c) ''provider''"
  show ?thesis
  proof (cases "\<exists>p. ?prov = JStr p \<and> p \<noteq> []")
    case False
    then have "processItem w i r order catalog item = (Inr (), r)"
      by (cases ?prov) (simp_all add: processItem_def Let_def)
    with assms show ?thesis by auto
  next
    case True
    then obtain p where p: "?prov = JStr p" "p \<noteq> []" by blast
    from dispatch_tracked [OF assms, of w i item p]
    consider e where "dispatch w i r order item p = (Inl e, r)"
      | "dispatch w i r order item p = (Inr (), r)"
      | r' stored' where "dispatch w i r order item p = (Inr (), r')" "tracked r' order stored'"
          "\<not> provider_calls_throw w"
      by blast
    then show ?thesis
    proof cases
      case 1
      from updateOrderStatus_tracked [OF assms, of "clock w (2 * i + 3)" "clock w (2 * i + 3)"
             PENDING None "Some p"]
      obtain stored' r' where
        "updateOrderStatus (clock w (2 * i + 3)) (clock w (2 * i + 3)) r (id_o order) PENDING None
           (Some p) = (Inr stored', r')" "tracked r' order stored'" "status stored' = PENDING"
        by blast
      with 1 p show ?thesis by (auto simp add: processItem_def Let_def)
    next
      case 2
      with p assms show ?thesis by (auto simp add: processItem_def Let_def)
    next
      case 3
      with p show ?thesis by (auto simp add: processItem_def Let_def)
    qed
  qed
qed

lemma processItems_tracked:
  "tracked r order stored \<Longrightarrow>
   \<exists>r' stored'. processItems w i r order catalog its = (Inr (), r') \<and>
     tracked r' order stored' \<and>
     (provider_calls_throw w \<and> status stored = PENDING \<longrightarrow> status stored' = PENDING)"
proof (induction its arbitrary: r i stored)
  case Nil
  then show ?case by auto
next
  case (Cons item rest)
  from processItem_tracked [OF Cons.prems, of w i catalog item]
  obtain r1 s1 where 1: "processItem w i r order catalog item = (Inr (), r1)"
    "tracked r1 order s1"
    "provider_calls_throw w \<and> status stored = PENDING \<longrightarrow> status s1 = PENDING"
    by blast
  from Cons.IH [OF 1(2), of "Suc i"]
  obtain r2 s2 where 2: "processItems w (Suc i) r1 order catalog rest = (Inr (), r2)"
    "tracked r2 order s2"
    "provider_calls_throw w \<and> status s1 = PENDING \<longrightarrow> status s2 = PENDING"
    by blast
  from 1 2 show ?case by auto
qed

lemma processItem_failed_dispatch:
  assumes "provider_of catalog item = JStr p" "p \<noteq> []"
    and "dispatch w i r order item p = (Inl e, r1)"
  shows "processItem w i r order catalog item =
           (case updateOrderStatus (clock w (2 * i + 3)) (clock w (2 * i + 3)) r1 (id_o order)
                   PENDING None (Some p) of
              (Inl e', r2) \<Rightarrow> (Inl e', r2) | (Inr u, r2) \<Rightarrow> (Inr (), r2))"
  using assms by (simp add: processItem_def provider_of_def Let_def)

text \<open>
  C9: every call of \<^verbatim>\<open>updateOrderStatus\<close> on a cached order sets \<^verbatim>\<open>externalOrderId\<close> and
  \<^verbatim>\<open>externalProvider\<close> to its arguments, whatever was stored (an undefined argument
  erases the field), and leaves every field other than these two, the status,
  \<^verbatim>\<open>updatedAt\<close> and the terminal timestamps as it was. Hence a line whose dispatch
  throws leaves the cached order PENDING with no external reference and with the
  failing provider's name, whatever an earlier line had stored.
\<close>

theorem updateOrderStatus_overwrites_external_reference:
  "(\<forall>order. order_cache r orderId = Some order \<longrightarrow>
      (\<exists>updated. updateOrderStatus t t' r orderId st ext prov =
                    (Inr updated, cacheOrder r updated) \<and>
         externalOrderId updated = ext \<and> externalProvider updated = prov \<and>
         frame order updated)) \<and>
   (\<forall>p e r1 stored.
      provider_of catalog item = JStr p \<and> p \<noteq> [] \<and>
      dispatch w i r0 order item p = (Inl e, r1) \<and>
      order_cache r1 (id_o order) = Some stored \<longrightarrow>
      (\<exists>stored' r2. processItem w i r0 order catalog item = (Inr (), r2) \<and>
         order_cache r2 (id_o stored) = Some stored' \<and> status stored' = PENDING \<and>
         externalOrderId stored' = None \<and> externalProvider stored' = Some p \<and>
         frame stored stored'))"
proof (intro conjI allI impI)
  fix order assume "order_cache r orderId = Some order"
  then show "\<exists>updated. updateOrderStatus t t' r orderId st ext prov =
                          (Inr updated, cacheOrder r updated) \<and>
         externalOrderId updated = ext \<and> externalProvider updated = prov \<and>
         frame order updated"
    by (simp add: updateOrderStatus_found Let_def frame_def)
next
  fix p e r1 stored
  assume a: "provider_of catalog item = JStr p \<and> p \<noteq> [] \<and>
      dispatch w i r0 order item p = (Inl e, r1) \<and>
      order_cache r1 (id_o order) = Some stored"
  then have "processItem w i r0 order catalog item =
           (case updateOrderStatus (clock w (2 * i + 3)) (clock w (2 * i + 3)) r1 (id_o order)
                   PENDING None (Some p) of
              (Inl e', r2) \<Rightarrow> (Inl e', r2) | (Inr u, r2) \<Rightarrow> (Inr (), r2))"
    by (intro processItem_failed_dispatch) auto
  with a show "\<exists>stored' r2. processItem w i r0 order catalog item = (Inr (), r2) \<and>
         order_cache r2 (id_o stored) = Some stored' \<and> status stored' = PENDING \<and>
         externalOrderId stored' = None \<and> externalProvider stored' = Some p \<and>
         frame stored stored'"
    by (simp add: updateOrderStatus_found Let_def frame_def cacheOrder_def)
qed

lemma dispatch_food_fails:
  "dispatch world0 1 redis0 order0 food_line ''doordash'' =
   (Inl (Error ''Missing required DoorDash metadata: addresses and items''), redis0)"
  by (simp add: dispatch_def processDoorDashDelivery_def opt_field_def food_line_def)

theorem updateOrderStatus_overwrites_external_reference_witness:
  "externalOrderId order0 = Some ''ride-1'' \<and>
   (\<exists>updated. updateOrderStatus 300 300 redis0 ''o-1'' PENDING None (Some ''doordash'') =
        (Inr updated, cacheOrder redis0 updated) \<and>
      externalOrderId updated = None \<and> externalProvider updated = Some ''doordash'' \<and>
      totalAmount updated = totalAmount order0) \<and>
   (\<exists>stored' r2. processItem world0 1 redis0 order0 catalog0 food_line = (Inr (), r2) \<and>
      order_cache r2 ''o-1'' = Some stored' \<and> status stored' = PENDING \<and>
      externalOrderId stored' = None \<and> externalProvider stored' = Some ''doordash'')"
proof -
  have a: "order_cache redis0 ''o-1'' = Some order0" by (simp add: redis0_def)
  have b: "provider_of catalog0 food_line = JStr ''doordash''"
    by (simp add: provider_of_def catalog0_def mk_item_def opt_field_def food_line_def)
  have c: "id_o order0 = ''o-1''" "externalOrderId order0 = Some ''ride-1''"
    by (simp_all add: order0_def)
  note inst = updateOrderStatus_overwrites_external_reference
                [of redis0 "''o-1''" 300 300 PENDING None "Some ''doordash''" catalog0 food_line
                    world0 1 redis0 order0]
  from inst a obtain updated where
    1: "updateOrderStatus 300 300 redis0 ''o-1'' PENDING None (Some ''doordash'') =
          (Inr updated, cacheOrder redis0 updated)"
       "externalOrderId updated = None" "externalProvider updated = Some ''doordash''"
       "frame order0 updated"
    by blast
  from inst a b c dispatch_food_fails obtain stored' r2 where
    2: "processItem world0 1 redis0 order0 catalog0 food_line = (Inr (), r2)"
       "order_cache r2 ''o-1'' = Some stored'" "status stored' = PENDING"
       "externalOrderId stored' = None" "externalProvider stored' = Some ''doordash''"
    by (metis list.distinct(1))
  from 1 2 c show ?thesis by (auto simp: frame_def)
qed

subsection \<open>Order creation\<close>

text \<open>
  The accumulator of the closure is a left fold over the lines, in the addition and the
  multiplication of the numbers as they are; no law of arithmetic enters the proof.
\<close>

lemma map_items_Inr:
  "map_items catalog tot ls = Inr (tot', its) \<Longrightarrow>
   tot' = foldl (\<lambda>acc item. acc + catalogPrice catalog (upsellId_d item) * quantity_d item)
            tot ls \<and>
   map price its = map (\<lambda>item. catalogPrice catalog (upsellId_d item)) ls \<and>
   map quantity its = map quantity_d ls \<and>
   map upsellId its = map upsellId_d ls \<and>
   map metadata its = map metadata_d ls \<and>
   (\<forall>item\<in>set ls. valid_line catalog item)"
proof (induction ls arbitrary: tot tot' its)
  case Nil
  then show ?case by simp
next
  case (Cons item rest)
  from Cons.prems obtain c where c: "find (\<lambda>c. id_c c = upsellId_d item) catalog = Some c"
    by (auto split: option.splits)
  with Cons.prems have av: "available c" by (auto split: if_splits)
  from Cons.prems c av obtain its' where
    rest: "map_items catalog (tot + price_c c * quantity_d item) rest = Inr (tot', its')"
    and its: "its = \<lparr>upsellId = upsellId_d item, quantity = quantity_d item, price = price_c c,
                     metadata = metadata_d item\<rparr> # its'"
    by (auto split: sum.splits)
  from Cons.IH [OF rest] c av its show ?case
    by (simp add: catalogPrice_def valid_line_def)
qed

text \<open>
  Where the addition is associative and has 0 as its unit, as on integers (amounts in
  minor units), the left fold is the sum.
\<close>

lemma foldl_plus_sum_list:
  "foldl (\<lambda>acc x. acc + f x) (a :: 'a::monoid_add) xs = a + sum_list (map f xs)"
  by (induction xs arbitrary: a) (simp_all add: add.assoc)

lemma map_items_valid:
  "\<forall>item\<in>set ls. valid_line catalog item \<Longrightarrow> \<exists>tot' its. map_items catalog tot ls = Inr (tot', its)"
proof (induction ls arbitrary: tot)
  case Nil
  then show ?case by simp
next
  case (Cons item rest)
  then obtain c where c: "find (\<lambda>c. id_c c = upsellId_d item) catalog = Some c" "available c"
    by (auto simp: valid_line_def split: option.splits)
  from Cons obtain tot' its where
    "map_items catalog (tot + price_c c * quantity_d item) rest = Inr (tot', its)"
    by fastforce
  with c show ?case by simp
qed

lemma map_items_not_found:
  "\<forall>l\<in>set pre. valid_line catalog l \<Longrightarrow>
   find (\<lambda>c. id_c c = upsellId_d bad) catalog = None \<Longrightarrow>
   map_items catalog tot (pre @ bad # post) = Inl (Error (''Upsell item not found: '' @ upsellId_d bad))"
proof (induction pre arbitrary: tot)
  case Nil
  then show ?case by simp
next
  case (Cons item rest)
  then obtain c where c: "find (\<lambda>c. id_c c = upsellId_d item) catalog = Some c" "available c"
    by (auto simp: valid_line_def split: option.splits)
  with Cons show ?case by simp
qed

lemma map_items_unavailable:
  "\<forall>l\<in>set pre. valid_line catalog l \<Longrightarrow>
   find (\<lambda>c. id_c c = upsellId_d bad) catalog = Some b \<Longrightarrow> \<not> available b \<Longrightarrow>
   map_items catalog tot (pre @ bad # post) = Inl (Error (''Upsell item not available: '' @ name b))"
proof (induction pre arbitrary: tot)
  case Nil
  then show ?case by simp
next
  case (Cons item rest)
  then obtain c where c: "find (\<lambda>c. id_c c = upsellId_d item) catalog = Some c" "available c"
    by (auto simp: valid_line_def split: option.splits)
  with Cons show ?case by simp
qed

lemma getUpsellCatalog_orders:
  "getUpsellCatalog lit w r pid = (catalog, r0) \<Longrightarrow> order_cache r0 = order_cache r"
  by (auto simp: getUpsellCatalog_def cacheCatalog_def Let_def split: option.splits)

lemma createUpsellOrder_rejected:
  "getUpsellCatalog lit w r pid = (catalog, r0) \<Longrightarrow> map_items catalog 0 (items_d dto) = Inl e \<Longrightarrow>
   createUpsellOrder lit w r dto gid pid = (Inl e, r0)"
  by (simp add: createUpsellOrder_def)

lemma createUpsellOrder_accepted:
  assumes "getUpsellCatalog lit w r pid = (catalog, r0)"
    and "map_items catalog 0 (items_d dto) = Inr (tot, its)"
  shows "\<exists>r' stored. createUpsellOrder lit w r dto gid pid = (Inr (new_order w dto gid pid tot its), r') \<and>
           tracked r' (new_order w dto gid pid tot its) stored \<and>
           (provider_calls_throw w \<longrightarrow> status stored = PENDING)"
proof -
  let ?order = "new_order w dto gid pid tot its"
  have t: "tracked (cacheOrder r0 ?order) ?order ?order"
    by (simp add: tracked_def cacheOrder_def frame_def)
  have s: "status ?order = PENDING" by (simp add: new_order_def)
  from processItems_tracked [OF t, of w 0 catalog "items ?order"] s
  obtain r' stored where
    "processExternalIntegrations w (cacheOrder r0 ?order) ?order catalog = (Inr (), r')"
    "tracked r' ?order stored" "provider_calls_throw w \<longrightarrow> status stored = PENDING"
    by (auto simp: processExternalIntegrations_def)
  with assms show ?thesis
    by (auto simp add: createUpsellOrder_def Let_def new_order_def)
qed

lemmas service_defs = createUpsellOrder_def getUpsellCatalog_def getCachedCatalog_def
  cacheOrder_def processExternalIntegrations_def processItem_def dispatch_def
  processUberRideRequest_def processDoorDashDelivery_def processInstacartOrder_def
  updateOrderStatus_def getOrderById_def getCachedOrder_def opt_field_def Let_def

lemma cached_catalog0: "getUpsellCatalog int world0 redis1 ''property-123'' = (catalog0, redis1)"
  by (simp add: getUpsellCatalog_def getCachedCatalog_def redis1_def)

text \<open>
  The example of the specification: an available item of 5000 cents, here ordered twice.
  The order is PENDING and its total is 10000; the price that the guest wrote into the
  line's metadata is carried along and counts for nothing.
\<close>

lemma createUpsellOrder_checkin:
  "fst (createUpsellOrder int world0 redis1 dto_checkin ''guest-1'' ''property-123'') =
     Inr \<lparr>id_o = ''order-1'', reservationId = ''res-1'', propertyId = ''property-123'',
          guestId = ''guest-1'',
          items = [\<lparr>upsellId = ''early-checkin'', quantity = 2, price = 5000,
                    metadata = Some [''price'' \<mapsto> JNum 1]\<rparr>],
          totalAmount = 10000, currency = ''USD'', status = PENDING, paymentIntentId = None,
          externalOrderId = None, externalProvider = None, scheduledFor = None,
          completedAt = None, cancelledAt = None, refundedAt = None,
          createdAt = 1000, updatedAt = 1001\<rparr>"
  by (simp add: service_defs catalog0_def redis1_def world0_def dto_checkin_def mk_item_def)

lemma createUpsellOrder_spa_ghost:
  "createUpsellOrder int world0 redis1 dto_spa_ghost ''guest-1'' ''property-123'' =
     (Inl (Error ''Upsell item not available: Spa Day''), redis1)"
  by (simp add: service_defs catalog0_def redis1_def world0_def dto_spa_ghost_def mk_item_def)

text \<open>
  A ride that is confirmed, followed by a delivery whose dispatch throws: the caller gets
  the PENDING order, and the cache ends with a PENDING order that has lost the ride's
  reference.
\<close>

lemma createUpsellOrder_ride_then_failed_delivery:
  "case createUpsellOrder int world1 redis1 dto_ride_food ''guest-1'' ''property-123'' of
     (res, r') \<Rightarrow>
       map_sum id status res = Inr PENDING \<and>
       map_option (\<lambda>s. (status s, externalOrderId s, externalProvider s))
         (order_cache r' ''order-1'') = Some (PENDING, None, Some ''doordash'')"
  by (simp add: service_defs catalog0_def redis1_def world0_def world1_def dto_ride_food_def
        ride_metadata_def food_metadata_def mk_item_def)

text \<open>
  C1: for every order that \<^verbatim>\<open>createUpsellOrder\<close> accepts, with \<open>catalog\<close> the catalog it
  resolved, \<^verbatim>\<open>totalAmount\<close> is the sum over the requested lines of the catalog price of
  the line's id times the requested quantity, added up from 0 in the order of the
  request with the addition of the numbers themselves (for doubles, the rounded one);
  and each stored line carries that catalog price, the requested quantity and the
  requested id. The right-hand sides read nothing of the request but ids and quantities,
  so nothing else the guest sends has a part in them.
\<close>

theorem createUpsellOrder_total_from_catalog:
  assumes "getUpsellCatalog lit w r pid = (catalog, r0)"
    and "createUpsellOrder lit w r dto gid pid = (Inr order, r')"
  shows "totalAmount order =
           foldl (\<lambda>acc item. acc + catalogPrice catalog (upsellId_d item) * quantity_d item)
             0 (items_d dto) \<and>
         map price (items order) =
           map (\<lambda>item. catalogPrice catalog (upsellId_d item)) (items_d dto) \<and>
         map quantity (items order) = map quantity_d (items_d dto) \<and>
         map upsellId (items order) = map upsellId_d (items_d dto) \<and>
         (\<forall>item\<in>set (items_d dto). valid_line catalog item)"
proof (cases "map_items catalog 0 (items_d dto)")
  case (Inl e)
  from createUpsellOrder_rejected [OF assms(1) Inl] assms(2) show ?thesis by simp
next
  case (Inr p)
  obtain tot its where p: "p = (tot, its)" by (cases p)
  from createUpsellOrder_accepted [OF assms(1) Inr [unfolded p], of gid] assms(2)
  have "order = new_order w dto gid pid tot its" by auto
  then have "totalAmount order = tot" "items order = its" by (simp_all add: new_order_def)
  with map_items_Inr [OF Inr [unfolded p]] show ?thesis by simp
qed

theorem createUpsellOrder_total_from_catalog_witness:
  "\<exists>order r'.
     createUpsellOrder int world0 redis1 dto_checkin ''guest-1'' ''property-123'' = (Inr order, r') \<and>
     totalAmount order = 10000 \<and> map price (items order) = [5000] \<and>
     map quantity (items order) = [2]"
proof -
  obtain res r' where
    c: "createUpsellOrder int world0 redis1 dto_checkin ''guest-1'' ''property-123'' = (res, r')"
    by (cases "createUpsellOrder int world0 redis1 dto_checkin ''guest-1'' ''property-123''")
  with createUpsellOrder_checkin obtain order where o: "res = Inr order" by auto
  from createUpsellOrder_total_from_catalog [OF cached_catalog0 c [unfolded o]] have
    "totalAmount order = 10000 \<and> map price (items order) = [5000] \<and>
     map quantity (items order) = [2]"
    by (simp add: dto_checkin_def catalogPrice_def catalog0_def mk_item_def)
  with c o show ?thesis by auto
qed

text \<open>
  C5, as stated, fails where an unavailable item comes before an unknown id: the request
  asks for an id that the catalog does not have, and the error is the one of the
  unavailable item.
\<close>

theorem unavailable_before_unknown_counterexample:
  "find (\<lambda>c. id_c c = ''ghost'') catalog0 = None \<and>
   ''ghost'' \<in> upsellId_d ` set (items_d dto_spa_ghost) \<and>
   getUpsellCatalog int world0 redis1 ''property-123'' = (catalog0, redis1) \<and>
   fst (createUpsellOrder int world0 redis1 dto_spa_ghost ''guest-1'' ''property-123'') =
     Inl (Error ''Upsell item not available: Spa Day'')"
  by (simp add: createUpsellOrder_spa_ghost cached_catalog0)
     (simp add: catalog0_def mk_item_def dto_spa_ghost_def)

text \<open>
  C5, amended: when some requested line fails validation, \<^verbatim>\<open>createUpsellOrder\<close> fails with
  the error of the first such line in the order of the request: ``Upsell item not found''
  when the id of that line is not in the resolved catalog, ``Upsell item not available''
  when it is and the item has \<^verbatim>\<open>available == false\<close>. The whole order is rejected: the
  order cache is as it was before the call.
\<close>

theorem createUpsellOrder_rejects_at_first_invalid_line:
  assumes "getUpsellCatalog lit w r pid = (catalog, r0)"
    and "\<exists>item\<in>set (items_d dto). \<not> valid_line catalog item"
  shows "\<exists>pre bad post.
           items_d dto = pre @ bad # post \<and> (\<forall>item\<in>set pre. valid_line catalog item) \<and>
           \<not> valid_line catalog bad \<and>
           fst (createUpsellOrder lit w r dto gid pid) =
             Inl (case find (\<lambda>c. id_c c = upsellId_d bad) catalog of
                    None \<Rightarrow> Error (''Upsell item not found: '' @ upsellId_d bad)
                  | Some c \<Rightarrow> Error (''Upsell item not available: '' @ name c)) \<and>
           order_cache (snd (createUpsellOrder lit w r dto gid pid)) = order_cache r"
proof -
  from split_list_first_prop [OF assms(2)] obtain pre bad post where
    s: "items_d dto = pre @ bad # post" "\<not> valid_line catalog bad"
       "\<forall>item\<in>set pre. valid_line catalog item"
    by auto
  let ?e = "case find (\<lambda>c. id_c c = upsellId_d bad) catalog of
              None \<Rightarrow> Error (''Upsell item not found: '' @ upsellId_d bad)
            | Some c \<Rightarrow> Error (''Upsell item not available: '' @ name c)"
  have "map_items catalog 0 (items_d dto) = Inl ?e"
  proof (cases "find (\<lambda>c. id_c c = upsellId_d bad) catalog")
    case None
    with map_items_not_found [OF s(3) None, of 0 post] s(1) show ?thesis by simp
  next
    case (Some b)
    with s(2) have "\<not> available b" by (simp add: valid_line_def)
    with map_items_unavailable [OF s(3) Some, of 0 post] s(1) Some show ?thesis by simp
  qed
  from createUpsellOrder_rejected [OF assms(1) this, of gid]
       getUpsellCatalog_orders [OF assms(1)] s
  show ?thesis by auto
qed

theorem createUpsellOrder_rejects_at_first_invalid_line_witness:
  "(\<exists>item\<in>set (items_d dto_spa_ghost). \<not> valid_line catalog0 item) \<and>
   (\<exists>pre bad post.
      items_d dto_spa_ghost = pre @ bad # post \<and> (\<forall>item\<in>set pre. valid_line catalog0 item) \<and>
      \<not> valid_line catalog0 bad \<and>
      fst (createUpsellOrder int world0 redis1 dto_spa_ghost ''guest-1'' ''property-123'') =
        Inl (case find (\<lambda>c. id_c c = upsellId_d bad) catalog0 of
               None \<Rightarrow> Error (''Upsell item not found: '' @ upsellId_d bad)
             | Some c \<Rightarrow> Error (''Upsell item not available: '' @ name c)) \<and>
      order_cache (snd (createUpsellOrder int world0 redis1 dto_spa_ghost ''guest-1''
                          ''property-123'')) = order_cache redis1)"
proof -
  have v: "\<exists>item\<in>set (items_d dto_spa_ghost). \<not> valid_line catalog0 item"
    by (simp add: dto_spa_ghost_def valid_line_def catalog0_def mk_item_def)
  from createUpsellOrder_rejects_at_first_invalid_line [OF cached_catalog0 v, of "''guest-1''"] v
  show ?thesis by blast
qed

lemma world0_throws: "provider_calls_throw world0"
  by (simp add: provider_calls_throw_def world0_def)

text \<open>
  C4: once every requested line has passed validation, \<^verbatim>\<open>createUpsellOrder\<close> returns the
  order, with status PENDING, whatever the providers do: no error of a dispatch reaches
  the caller. The order is in the cache under its id, with the lines and the total it
  was created with; and when every dispatch throws, the cached order is PENDING.
\<close>

theorem createUpsellOrder_survives_dispatch_failures:
  assumes "getUpsellCatalog lit w r pid = (catalog, r0)"
    and "\<forall>item\<in>set (items_d dto). valid_line catalog item"
  shows "\<exists>order r' stored.
           createUpsellOrder lit w r dto gid pid = (Inr order, r') \<and> status order = PENDING \<and>
           order_cache r' (id_o order) = Some stored \<and> frame order stored \<and>
           (provider_calls_throw w \<longrightarrow> status stored = PENDING)"
proof -
  from map_items_valid [OF assms(2), of 0] obtain tot its where
    m: "map_items catalog 0 (items_d dto) = Inr (tot, its)" by blast
  from createUpsellOrder_accepted [OF assms(1) m, of gid]
  obtain r' stored where
    "createUpsellOrder lit w r dto gid pid = (Inr (new_order w dto gid pid tot its), r')"
    "tracked r' (new_order w dto gid pid tot its) stored"
    "provider_calls_throw w \<longrightarrow> status stored = PENDING"
    by blast
  moreover have "status (new_order w dto gid pid tot its) = PENDING"
    by (simp add: new_order_def)
  ultimately show ?thesis by (auto simp: tracked_def)
qed

theorem createUpsellOrder_survives_dispatch_failures_witness:
  "provider_calls_throw world0 \<and>
   (\<exists>order r' stored.
      createUpsellOrder int world0 redis1 dto_ride_food ''guest-1'' ''property-123'' =
        (Inr order, r') \<and>
      status order = PENDING \<and> order_cache r' (id_o order) = Some stored \<and>
      items stored = items order \<and> status stored = PENDING)"
proof -
  have v: "\<forall>item\<in>set (items_d dto_ride_food). valid_line catalog0 item"
    by (simp add: dto_ride_food_def valid_line_def catalog0_def mk_item_def)
  from createUpsellOrder_survives_dispatch_failures [OF cached_catalog0 v, of "''guest-1''"]
       world0_throws
  show ?thesis by (auto simp: frame_def)
qed

end
